(* ===== verification/Prelude.thy ===== *)
theory Prelude
  imports Main
begin

text \<open>
  Shared vocabulary of the development: JavaScript objects as ordered property
  lists (object literals and the spread operator \<open>{...a, ...b}\<close>), the
  printing of numbers in template literals (\<open>`${n}`\<close>) and ASCII case folding.
  The collection \<open>js_simps\<close> gathers the characteristic equations of these
  runtime operations; component proofs add it to the simplifier.
\<close>

named_theorems js_simps "characteristic equations of the JavaScript runtime model"

section \<open>Objects and the spread operator\<close>

text \<open>
  A JavaScript object with string keys is a list of properties in insertion
  order. Assigning a property that exists overwrites it in place; a new one
  is appended. A spread \<open>{...base, ...src}\<close> assigns the properties of
  \<open>src\<close> one after the other onto a copy of \<open>base\<close>.
\<close>

type_synonym 'v js_obj = "(string \<times> 'v) list"

fun obj_set :: "'v js_obj \<Rightarrow> string \<Rightarrow> 'v \<Rightarrow> 'v js_obj" where
  "obj_set [] k v = [(k, v)]"
| "obj_set ((k', v') # ps) k v =
     (if k' = k then (k, v) # ps else (k', v') # obj_set ps k v)"

definition obj_spread :: "'v js_obj \<Rightarrow> 'v js_obj \<Rightarrow> 'v js_obj" where
  "obj_spread base src = fold (\<lambda>(k, v) acc. obj_set acc k v) src base"

definition obj_keys :: "'v js_obj \<Rightarrow> string list" where
  "obj_keys obj = map fst obj"

text \<open>An object never has two properties with the same key.\<close>

definition obj_wf :: "'v js_obj \<Rightarrow> bool" where
  "obj_wf obj \<longleftrightarrow> distinct (obj_keys obj)"

section \<open>Numbers in template literals\<close>

definition digit_char :: "nat \<Rightarrow> char" where
  "digit_char d = char_of (48 + d)"

text \<open>\<open>Number.prototype.toString\<close> on a non-negative integer.\<close>

fun nat_string :: "nat \<Rightarrow> string" where
  "nat_string n =
     (if n < 10 then [digit_char n] else nat_string (n div 10) @ [digit_char (n mod 10)])"

declare nat_string.simps [simp del]

definition int_string :: "int \<Rightarrow> string" where
  "int_string i = (if i < 0 then CHR ''-'' # nat_string (nat (- i)) else nat_string (nat i))"

definition is_digit :: "char \<Rightarrow> bool" where
  "is_digit c \<longleftrightarrow> (48::nat) \<le> of_char c \<and> of_char c \<le> (57::nat)"

definition digit_value :: "char \<Rightarrow> nat" where
  "digit_value c = of_char c - 48"

text \<open>Reading a decimal numeral back (the inverse of \<open>nat_string\<close>).\<close>

definition parse_nat :: "string \<Rightarrow> nat option" where
  "parse_nat s =
     (if s \<noteq> [] \<and> list_all is_digit s
      then Some (foldl (\<lambda>acc c. 10 * acc + digit_value c) 0 s) else None)"

text \<open>\<open>Array.prototype.join\<close> with a separator.\<close>

fun join_with :: "string \<Rightarrow> string list \<Rightarrow> string" where
  "join_with sep [] = []"
| "join_with sep [x] = x"
| "join_with sep (x # xs) = x @ sep @ join_with sep xs"

section \<open>ASCII case folding\<close>

definition lower_char :: "char \<Rightarrow> char" where
  "lower_char c =
     (if (65::nat) \<le> of_char c \<and> of_char c \<le> (90::nat) then char_of (of_char c + (32::nat)) else c)"

definition lower_ascii :: "string \<Rightarrow> string" where
  "lower_ascii s = map lower_char s"

section \<open>Lemmas on objects\<close>

lemma obj_keys_simps [simp]:
  "obj_keys [] = []"
  "obj_keys ((k, v) # obj) = k # obj_keys obj"
  by (simp_all add: obj_keys_def)

lemma map_of_obj_set [simp, js_simps]: "map_of (obj_set obj k v) = (map_of obj)(k \<mapsto> v)"
  by (induction obj) (auto simp: fun_eq_iff)

lemma keys_obj_set:
  "obj_keys (obj_set obj k v) = (if k \<in> set (obj_keys obj) then obj_keys obj else obj_keys obj @ [k])"
  by (induction obj) (force simp: obj_keys_def image_iff)+

lemma set_keys_obj_set [simp]: "set (obj_keys (obj_set obj k v)) = insert k (set (obj_keys obj))"
  by (auto simp: keys_obj_set)

lemma obj_wf_obj_set [simp, intro]: "obj_wf obj \<Longrightarrow> obj_wf (obj_set obj k v)"
  by (simp add: obj_wf_def keys_obj_set)

lemma obj_spread_Nil [simp, js_simps]: "obj_spread base [] = base"
  by (simp add: obj_spread_def)

lemma obj_spread_Cons [simp, js_simps]:
  "obj_spread base ((k, v) # src) = obj_spread (obj_set base k v) src"
  by (simp add: obj_spread_def)

text \<open>The spread as a map: later properties win (refinement to \<open>++\<close>).\<close>

lemma map_of_obj_spread [js_simps]:
  "map_of (obj_spread base src) = map_of base ++ map_of (rev src)"
  by (induction src arbitrary: base) (auto simp: map_add_upd_left)

lemma map_of_rev_distinct:
  "distinct (map fst xs) \<Longrightarrow> map_of (rev xs) = map_of xs"
proof (induction xs)
  case Nil
  then show ?case by simp
next
  case (Cons p xs)
  obtain k v where p: "p = (k, v)" by fastforce
  with Cons.prems have "map_of xs k = None" by (simp add: map_of_eq_None_iff)
  with Cons p show ?case by (auto simp: fun_eq_iff map_add_def split: option.splits)
qed

lemma map_of_obj_spread_wf:
  "obj_wf src \<Longrightarrow> map_of (obj_spread base src) = map_of base ++ map_of src"
  by (simp add: map_of_obj_spread obj_wf_def obj_keys_def map_of_rev_distinct)

lemma obj_wf_obj_spread [simp, intro]: "obj_wf base \<Longrightarrow> obj_wf (obj_spread base src)"
  by (induction src arbitrary: base) auto

lemma obj_keys_obj_spread_set:
  "set (obj_keys (obj_spread base src)) = set (obj_keys base) \<union> set (obj_keys src)"
  by (induction src arbitrary: base) auto

text \<open>A spread never moves a property that is already there.\<close>

lemma keys_prefix_obj_set:
  "take (length obj) (obj_keys (obj_set obj k v)) = obj_keys obj"
  by (induction obj) (auto simp: obj_keys_def)

lemma length_obj_set_ge: "length obj \<le> length (obj_set obj k v)"
  by (induction obj) auto

lemma keys_prefix_obj_spread:
  "take (length base) (obj_keys (obj_spread base src)) = obj_keys base"
proof (induction src arbitrary: base)
  case Nil
  then show ?case by (simp add: obj_keys_def)
next
  case (Cons p src)
  obtain k v where p: "p = (k, v)" by fastforce
  let ?b = "obj_set base k v"
  have "take (length ?b) (obj_keys (obj_spread ?b src)) = obj_keys ?b" by (rule Cons.IH)
  then have "take (length base) (take (length ?b) (obj_keys (obj_spread ?b src)))
      = take (length base) (obj_keys ?b)" by simp
  moreover have "length base \<le> length ?b" by (rule length_obj_set_ge)
  ultimately show ?case using keys_prefix_obj_set [of base k v] p
    by (simp add: min_absorb1)
qed

text \<open>Searching a shifted index list.\<close>

lemma find_map_Suc: "find P (map Suc xs) = map_option Suc (find (\<lambda>j. P (Suc j)) xs)"
  by (induction xs) auto

text \<open>Keeping the properties whose key satisfies a predicate commutes with assignment and spread.\<close>

lemma filter_obj_set:
  "filter (\<lambda>p. P (fst p)) (obj_set acc k v) =
     (if P k then obj_set (filter (\<lambda>p. P (fst p)) acc) k v else filter (\<lambda>p. P (fst p)) acc)"
  by (induction acc) auto

lemma filter_obj_spread:
  "filter (\<lambda>p. P (fst p)) (obj_spread base src) =
     obj_spread (filter (\<lambda>p. P (fst p)) base) (filter (\<lambda>p. P (fst p)) src)"
  by (induction src arbitrary: base) (auto simp: filter_obj_set)

section \<open>Lemmas on numerals\<close>

lemma is_digit_digit_char [simp]: "d < 10 \<Longrightarrow> is_digit (digit_char d)"
  by (simp add: is_digit_def digit_char_def)

lemma digit_value_digit_char [simp]: "d < 10 \<Longrightarrow> digit_value (digit_char d) = d"
  by (simp add: digit_value_def digit_char_def)

lemma nat_string_not_Nil [simp]: "nat_string n \<noteq> []"
  by (subst nat_string.simps) simp

lemma nat_string_digits: "list_all is_digit (nat_string n)"
proof (induction n rule: nat_string.induct)
  case (1 n)
  then show ?case by (subst nat_string.simps) simp
qed

lemma foldl_nat_string:
  "foldl (\<lambda>acc c. 10 * acc + digit_value c) 0 (nat_string n) = n"
proof (induction n rule: nat_string.induct)
  case (1 n)
  show ?case
  proof (cases "n < 10")
    case True
    then show ?thesis by (subst nat_string.simps) simp
  next
    case False
    with "1.IH" show ?thesis by (subst nat_string.simps) simp
  qed
qed

text \<open>Printing a numeral and reading it back gives the number.\<close>

lemma parse_nat_nat_string [simp]: "parse_nat (nat_string n) = Some n"
  by (simp add: parse_nat_def nat_string_digits foldl_nat_string)

text \<open>Rules that evaluate printed numbers and case folding on literals.\<close>

lemma eq_char_of_iff: "c = char_of n \<longleftrightarrow> take_bit 8 n = of_char c"
  for n :: nat
  by (metis char_of_eq_iff)

lemmas string_eval = char_of_eq_iff eq_char_of_iff digit_char_def nat_string.simps int_string_def
  lower_ascii_def lower_char_def

lemma nat_string_inj: "nat_string m = nat_string n \<Longrightarrow> m = n"
  by (metis option.inject parse_nat_nat_string)

end
