(* ===== verification/Runtime.thy ===== *)
theory Runtime
  imports Prelude
begin

text \<open>
  The JavaScript platform the client code runs against, modelled from the
  WHATWG Fetch and HTML timer specifications (it is not code of the
  repository): thrown values, header initialisers and the \<open>Headers\<close>
  constructor, the \<open>RequestInit\<close> dictionary, timers
  (\<open>setTimeout\<close>/\<open>clearTimeout\<close>) on a millisecond clock, \<open>fetch\<close> with an
  abort signal, and \<open>Response.json()\<close>, whose body read the request's signal
  still aborts while its timer is pending. The network is an oracle: the
  \<open>n\<close>-th request ever sent meets the \<open>n\<close>-th scripted attempt, which gives
  the latency until the response headers, the status, the latency of the body
  and the body. Everything that changes is in the record \<open>world\<close>, threaded
  through every operation.
\<close>

section \<open>Thrown values\<close>

text \<open>A thrown value is an \<open>Error\<close> object (name and message) or anything else.\<close>

datatype js_error = JsError string string | NonError

definition abort_error :: js_error where
  "abort_error = JsError ''AbortError'' ''This operation was aborted''"

section \<open>Header initialisers\<close>

text \<open>
  \<open>HeadersInit\<close> is a record of strings, a \<open>Headers\<close> instance or an array
  of name/value pairs.
\<close>

datatype headers_init =
    HRecord "string js_obj"
  | HInstance "(string \<times> string) list"
  | HPairs "(string \<times> string) list"

text \<open>
  The own enumerable properties of a header initialiser, as the spread
  operator sees them: a \<open>Headers\<close> instance has none (its entries live in
  internal slots), an array has its indices as keys, and each pair is later
  turned into a string by \<open>String(pair)\<close>, that is \<open>name,value\<close>.
\<close>

fun own_props :: "headers_init option \<Rightarrow> string js_obj" where
  "own_props None = []"
| "own_props (Some (HRecord obj)) = obj"
| "own_props (Some (HInstance _)) = []"
| "own_props (Some (HPairs ps)) =
     map (\<lambda>(i, (n, v)). (nat_string i, n @ '','' @ v)) (enumerate 0 ps)"

text \<open>
  The \<open>Headers\<close> constructor appends every entry with its name in lower case;
  reading a header joins all values of that name with \<open>", "\<close>.
\<close>

fun header_list :: "headers_init option \<Rightarrow> (string \<times> string) list" where
  "header_list None = []"
| "header_list (Some (HRecord obj)) = map (\<lambda>(n, v). (lower_ascii n, v)) obj"
| "header_list (Some (HInstance hs)) = map (\<lambda>(n, v). (lower_ascii n, v)) hs"
| "header_list (Some (HPairs ps)) = map (\<lambda>(n, v). (lower_ascii n, v)) ps"

definition header_get :: "(string \<times> string) list \<Rightarrow> string \<Rightarrow> string option" where
  "header_get hl n =
     (case map snd (filter (\<lambda>(k, _). k = lower_ascii n) hl) of
        [] \<Rightarrow> None
      | vs \<Rightarrow> Some (join_with '', '' vs))"

section \<open>Requests and responses\<close>

text \<open>
  The fields of \<open>RequestInit\<close> the repository uses; \<open>None\<close> is \<open>undefined\<close>.
  The field \<open>method\<close> is called \<open>http_method\<close> (\<open>method\<close> is a keyword of Isar).
\<close>

record request_init =
  http_method :: "string option"
  body :: "string option"
  headers :: "headers_init option"
  credentials :: "string option"
  cache :: "string option"
  signal :: "nat option"

record sent_request =
  sent_url :: string
  sent_init :: request_init
  sent_at :: nat

datatype 'v payload = JsonText 'v | MalformedJson string

text \<open>
  One scripted network attempt: a failure after a latency (the message of the
  \<open>TypeError\<close> fetch rejects with), or a reply with the latency until the
  headers, the status, the latency of the body and the body.
\<close>

datatype 'v attempt = NetworkFailure nat string | Reply nat nat nat "'v payload"

type_synonym 'v network = "nat \<Rightarrow> 'v attempt"

text \<open>
  A response remembers the abort signal of its request (\<open>resp_signal\<close>): the
  body stream is aborted, and \<open>json()\<close> rejects, when that signal fires
  before the body has arrived.
\<close>

record 'v response =
  status :: nat
  body_delay :: nat
  payload :: "'v payload"
  resp_signal :: "nat option"

definition status_ok :: "nat \<Rightarrow> bool" where
  "status_ok s \<longleftrightarrow> 200 \<le> s \<and> s \<le> 299"

definition response_ok :: "'v response \<Rightarrow> bool" where
  "response_ok r \<longleftrightarrow> status_ok (status r)"

section \<open>The world: clock, timers, network log, console\<close>

record world =
  now :: nat
  timers :: "(nat \<times> nat) list"
  next_id :: nat
  sent :: "sent_request list"
  console :: "string list"

text \<open>Pending timers are pairs of an id and a deadline; ids are never reused.\<close>

definition world_ok :: "world \<Rightarrow> bool" where
  "world_ok w \<longleftrightarrow> (\<forall>(i, d) \<in> set (timers w). i < next_id w)"

definition set_timeout :: "nat \<Rightarrow> world \<Rightarrow> nat \<times> world" where
  "set_timeout d w =
     (next_id w, w\<lparr>timers := timers w @ [(next_id w, now w + d)], next_id := Suc (next_id w)\<rparr>)"

definition clear_timeout :: "nat \<Rightarrow> world \<Rightarrow> world" where
  "clear_timeout i w = w\<lparr>timers := filter (\<lambda>(j, _). j \<noteq> i) (timers w)\<rparr>"

text \<open>Time passes until \<open>t\<close>; every timer due by then fires and is gone.\<close>

definition advance_to :: "nat \<Rightarrow> world \<Rightarrow> world" where
  "advance_to t w = w\<lparr>now := t, timers := filter (\<lambda>(_, d). t < d) (timers w)\<rparr>"

text \<open>\<open>await new Promise((resolve) => setTimeout(resolve, d))\<close>.\<close>

definition sleep :: "nat \<Rightarrow> world \<Rightarrow> world" where
  "sleep d w = (let (_, w1) = set_timeout d w in advance_to (now w1 + d) w1)"

definition console_log :: "string \<Rightarrow> world \<Rightarrow> world" where
  "console_log s w = w\<lparr>console := console w @ [s]\<rparr>"

section \<open>fetch and Response.json\<close>

definition fetch_method :: "request_init \<Rightarrow> string" where
  "fetch_method init = (case http_method init of None \<Rightarrow> ''GET'' | Some m \<Rightarrow> m)"

definition body_forbidden :: "request_init \<Rightarrow> bool" where
  "body_forbidden init \<longleftrightarrow> fetch_method init \<in> {''GET'', ''HEAD''} \<and> body init \<noteq> None"

text \<open>
  \<open>fetch\<close> rejects at once, sending nothing, when a GET or HEAD request has a
  body. Otherwise the request is sent, the next scripted attempt decides the
  outcome, and a pending abort timer of the request's signal that is due no
  later than the arrival aborts it (at equal times the timer is taken to win).
\<close>

fun attempt_latency :: "'v attempt \<Rightarrow> nat" where
  "attempt_latency (NetworkFailure lat _) = lat"
| "attempt_latency (Reply lat _ _ _) = lat"

fun attempt_outcome :: "nat option \<Rightarrow> 'v attempt \<Rightarrow> js_error + 'v response" where
  "attempt_outcome sig (NetworkFailure _ msg) = Inl (JsError ''TypeError'' msg)"
| "attempt_outcome sig (Reply _ st blat p) =
     Inr \<lparr>status = st, body_delay = blat, payload = p, resp_signal = sig\<rparr>"

definition fetch_deadline :: "request_init \<Rightarrow> world \<Rightarrow> nat option" where
  "fetch_deadline init w = (case signal init of None \<Rightarrow> None | Some s \<Rightarrow> map_of (timers w) s)"

definition fetch_log :: "string \<Rightarrow> request_init \<Rightarrow> world \<Rightarrow> world" where
  "fetch_log url init w = w\<lparr>sent := sent w @ [\<lparr>sent_url = url, sent_init = init, sent_at = now w\<rparr>]\<rparr>"

definition fetch :: "'v network \<Rightarrow> string \<Rightarrow> request_init \<Rightarrow> world \<Rightarrow> (js_error + 'v response) \<times> world" where
  "fetch net url init w =
     (if body_forbidden init
      then (Inl (JsError ''TypeError'' ''Request with GET/HEAD method cannot have body.''), w)
      else
        let a = net (length (sent w));
            arrival = now w + attempt_latency a;
            w1 = fetch_log url init w
        in (case fetch_deadline init w of
              Some d \<Rightarrow>
                if d \<le> arrival then (Inl abort_error, advance_to (max (now w) d) w1)
                else (attempt_outcome (signal init) a, advance_to arrival w1)
            | None \<Rightarrow> (attempt_outcome (signal init) a, advance_to arrival w1)))"

text \<open>Parsing the body as JSON.\<close>

fun json_parse :: "'v payload \<Rightarrow> js_error + 'v" where
  "json_parse (JsonText v) = Inr v"
| "json_parse (MalformedJson m) = Inl (JsError ''SyntaxError'' m)"

definition body_deadline :: "'v response \<Rightarrow> world \<Rightarrow> nat option" where
  "body_deadline r w = (case resp_signal r of None \<Rightarrow> None | Some s \<Rightarrow> map_of (timers w) s)"

text \<open>
  \<open>Response.json()\<close>: the body arrives after its latency and is parsed, unless
  a pending timer of the request's signal is due no later, which aborts the
  read.
\<close>

text \<open>When a body read ends: at the abort, or when the body has arrived.\<close>

definition body_end :: "'v response \<Rightarrow> world \<Rightarrow> nat" where
  "body_end r w =
     (case body_deadline r w of
        Some d \<Rightarrow> if d \<le> now w + body_delay r then max (now w) d else now w + body_delay r
      | None \<Rightarrow> now w + body_delay r)"

definition response_json :: "'v response \<Rightarrow> world \<Rightarrow> (js_error + 'v) \<times> world" where
  "response_json r w =
     (let arrival = now w + body_delay r in
      case body_deadline r w of
        Some d \<Rightarrow>
          if d \<le> arrival then (Inl abort_error, advance_to (max (now w) d) w)
          else (json_parse (payload r), advance_to arrival w)
      | None \<Rightarrow> (json_parse (payload r), advance_to arrival w))"

text \<open>A world just after page load: time zero, no timers, nothing sent or logged.\<close>

abbreviation initial_world :: world where
  "initial_world \<equiv> \<lparr>now = 0, timers = [], next_id = 0, sent = [], console = []\<rparr>"

section \<open>Lemmas on timers\<close>

lemma set_timeout_fst [simp]: "fst (set_timeout d w) = next_id w"
  by (simp add: set_timeout_def)

lemma set_timeout_fields [simp]:
  "timers (snd (set_timeout d w)) = timers w @ [(next_id w, now w + d)]"
  "next_id (snd (set_timeout d w)) = Suc (next_id w)"
  "now (snd (set_timeout d w)) = now w"
  "sent (snd (set_timeout d w)) = sent w"
  "console (snd (set_timeout d w)) = console w"
  by (simp_all add: set_timeout_def)

lemma set_timeout_world [js_simps]:
  "snd (set_timeout d w) =
     w\<lparr>timers := timers w @ [(next_id w, now w + d)], next_id := Suc (next_id w)\<rparr>"
  by (simp add: set_timeout_def)

lemma world_ok_set_timeout [intro]: "world_ok w \<Longrightarrow> world_ok (snd (set_timeout d w))"
  by (auto simp: world_ok_def)

lemma world_ok_clear_timeout [intro]: "world_ok w \<Longrightarrow> world_ok (clear_timeout i w)"
  by (auto simp: world_ok_def clear_timeout_def)

lemma world_ok_advance_to [intro]: "world_ok w \<Longrightarrow> world_ok (advance_to t w)"
  by (auto simp: world_ok_def advance_to_def)

lemma world_ok_sleep [intro]: "world_ok w \<Longrightarrow> world_ok (sleep d w)"
  by (auto simp: world_ok_def sleep_def set_timeout_def advance_to_def)

lemma timers_clear_timeout [simp]:
  "timers (clear_timeout i w) = filter (\<lambda>(j, _). j \<noteq> i) (timers w)"
  by (simp add: clear_timeout_def)

lemma timers_advance_to [simp]: "timers (advance_to t w) = filter (\<lambda>(_, d). t < d) (timers w)"
  by (simp add: advance_to_def)

lemma now_advance_to [simp]: "now (advance_to t w) = t"
  by (simp add: advance_to_def)

lemma next_id_advance_to [simp]: "next_id (advance_to t w) = next_id w"
  by (simp add: advance_to_def)

lemma sent_advance_to [simp]: "sent (advance_to t w) = sent w"
  by (simp add: advance_to_def)

lemma sent_clear_timeout [simp]: "sent (clear_timeout i w) = sent w"
  by (simp add: clear_timeout_def)

lemma now_clear_timeout [simp]: "now (clear_timeout i w) = now w"
  by (simp add: clear_timeout_def)

lemma next_id_clear_timeout [simp]: "next_id (clear_timeout i w) = next_id w"
  by (simp add: clear_timeout_def)

lemma console_clear_timeout [simp]: "console (clear_timeout i w) = console w"
  by (simp add: clear_timeout_def)

lemma console_advance_to [simp]: "console (advance_to t w) = console w"
  by (simp add: advance_to_def)

lemma sent_sleep [simp]: "sent (sleep d w) = sent w"
  by (simp add: sleep_def set_timeout_def)

lemma now_sleep [simp]: "now (sleep d w) = now w + d"
  by (simp add: sleep_def set_timeout_def)

lemma next_id_sleep [simp]: "next_id (sleep d w) = Suc (next_id w)"
  by (simp add: sleep_def set_timeout_def)

lemma console_sleep [simp]: "console (sleep d w) = console w"
  by (simp add: sleep_def set_timeout_def)

text \<open>The delay timer of \<open>sleep\<close> has fired when \<open>sleep\<close> returns.\<close>

lemma timers_sleep:
  "timers (sleep d w) = filter (\<lambda>(_, t). now w + d < t) (timers w)"
  by (simp add: sleep_def set_timeout_def)

lemma timers_sleep_subset: "set (timers (sleep d w)) \<subseteq> set (timers w)"
  by (auto simp: timers_sleep)

section \<open>Lemmas on fetch and Response.json\<close>

lemma fetch_forbidden [simp]:
  "body_forbidden init \<Longrightarrow>
   fetch net url init w = (Inl (JsError ''TypeError'' ''Request with GET/HEAD method cannot have body.''), w)"
  by (simp add: fetch_def)

text \<open>
  A request whose signal belongs to a timer due \<open>tmo\<close> after sending: the
  outcome depends only on the scripted attempt and on \<open>tmo\<close>.
\<close>

lemma fetch_NetworkFailure:
  assumes "\<not> body_forbidden init" and "signal init = Some s"
    and "map_of (timers w) s = Some (now w + tmo)"
    and "net (length (sent w)) = NetworkFailure lat msg"
  shows "fetch net url init w =
     (if tmo \<le> lat then Inl abort_error else Inl (JsError ''TypeError'' msg),
      advance_to (now w + min tmo lat)
        (fetch_log url init w))"
  using assms by (simp add: fetch_def fetch_deadline_def min_def)

lemma fetch_Reply:
  assumes "\<not> body_forbidden init" and "signal init = Some s"
    and "map_of (timers w) s = Some (now w + tmo)"
    and "net (length (sent w)) = Reply lat st blat p"
  shows "fetch net url init w =
     (if tmo \<le> lat then Inl abort_error
      else Inr \<lparr>status = st, body_delay = blat, payload = p, resp_signal = Some s\<rparr>,
      advance_to (now w + min tmo lat)
        (fetch_log url init w))"
  using assms by (simp add: fetch_def fetch_deadline_def min_def)

text \<open>A request without a signal meets the next scripted attempt unhindered.\<close>

lemma fetch_no_signal:
  assumes "\<not> body_forbidden init" and "signal init = None"
  shows "fetch net url init w =
     (attempt_outcome None (net (length (sent w))),
      advance_to (now w + attempt_latency (net (length (sent w)))) (fetch_log url init w))"
  using assms by (simp add: fetch_def fetch_deadline_def Let_def)

text \<open>Whatever happens, \<open>fetch\<close> logs the request (or nothing) and lets time pass.\<close>

lemma fetch_world:
  obtains "body_forbidden init" and "snd (fetch net url init w) = w"
  | t where "\<not> body_forbidden init" and "now w \<le> t"
    and "snd (fetch net url init w) = advance_to t (fetch_log url init w)"
proof (cases "body_forbidden init")
  case True
  then show ?thesis using that(1) by simp
next
  case False
  let ?a = "net (length (sent w))"
  let ?arr = "now w + attempt_latency ?a"
  show ?thesis
  proof (cases "fetch_deadline init w")
    case None
    with False show ?thesis by (intro that(2) [of ?arr]) (simp_all add: fetch_def Let_def)
  next
    case (Some d)
    show ?thesis
    proof (cases "d \<le> ?arr")
      case True
      with False Some show ?thesis by (intro that(2) [of "max (now w) d"]) (simp_all add: fetch_def Let_def)
    next
      case late: False
      with False Some show ?thesis by (intro that(2) [of ?arr]) (simp_all add: fetch_def Let_def)
    qed
  qed
qed

lemma fetch_log_simps [simp]:
  "sent (fetch_log url init w) = sent w @ [\<lparr>sent_url = url, sent_init = init, sent_at = now w\<rparr>]"
  "now (fetch_log url init w) = now w"
  "timers (fetch_log url init w) = timers w"
  "next_id (fetch_log url init w) = next_id w"
  "console (fetch_log url init w) = console w"
  by (simp_all add: fetch_log_def)

lemma world_ok_fetch [intro]: "world_ok w \<Longrightarrow> world_ok (snd (fetch net url init w))"
  by (cases rule: fetch_world [of init net url w]) (auto simp: world_ok_def advance_to_def)

lemma timers_fetch_subset: "set (timers (snd (fetch net url init w))) \<subseteq> set (timers w)"
  by (cases rule: fetch_world [of init net url w]) auto

lemma next_id_fetch [simp]: "next_id (snd (fetch net url init w)) = next_id w"
  by (cases rule: fetch_world [of init net url w]) auto

lemma console_fetch [simp]: "console (snd (fetch net url init w)) = console w"
  by (cases rule: fetch_world [of init net url w]) auto

lemma now_fetch_mono: "now w \<le> now (snd (fetch net url init w))"
  by (cases rule: fetch_world [of init net url w]) auto

lemma sent_fetch:
  "sent (snd (fetch net url init w)) =
     (if body_forbidden init then sent w
      else sent w @ [\<lparr>sent_url = url, sent_init = init, sent_at = now w\<rparr>])"
  by (cases rule: fetch_world [of init net url w]) auto

lemma body_deadline_no_signal [simp]: "resp_signal r = None \<Longrightarrow> body_deadline r w = None"
  by (simp add: body_deadline_def)

lemma map_of_filter_key: "map_of (filter (\<lambda>(j, _). j \<noteq> i) xs) i = None"
  by (induction xs) auto

text \<open>Once the timer of its signal has been cleared, a response body cannot be aborted.\<close>

lemma body_deadline_cleared [simp]:
  "resp_signal r = Some i \<Longrightarrow> body_deadline r (clear_timeout i w) = None"
  by (simp add: body_deadline_def map_of_filter_key)

lemma response_json_no_deadline [simp]:
  "body_deadline r w = None \<Longrightarrow>
   response_json r w = (json_parse (payload r), advance_to (now w + body_delay r) w)"
  by (simp add: response_json_def)

lemma response_json_world [simp]: "snd (response_json r w) = advance_to (body_end r w) w"
  by (simp add: response_json_def body_end_def Let_def split: option.splits)

lemma body_end_no_deadline [simp]: "body_deadline r w = None \<Longrightarrow> body_end r w = now w + body_delay r"
  by (simp add: body_end_def)


section \<open>Lemmas on headers\<close>

lemma filter_key_wf:
  "obj_wf obj \<Longrightarrow>
   filter (\<lambda>p. fst p = k) obj = (case map_of obj k of None \<Rightarrow> [] | Some v \<Rightarrow> [(k, v)])"
proof (induction obj)
  case Nil
  then show ?case by simp
next
  case (Cons p obj)
  obtain n v where p: "p = (n, v)" by fastforce
  with Cons.prems have wf: "obj_wf obj" and fresh: "n \<notin> set (obj_keys obj)"
    by (auto simp: obj_wf_def obj_keys_def)
  show ?case
  proof (cases "n = k")
    case True
    with fresh have "map_of obj k = None" by (simp add: obj_keys_def map_of_eq_None_iff)
    with Cons.IH [OF wf] p True show ?thesis by simp
  next
    case False
    with Cons.IH [OF wf] p show ?thesis by simp
  qed
qed

text \<open>Reading a header of a plain record: every property of that spelling, in order.\<close>

lemma header_get_HRecord:
  "header_get (header_list (Some (HRecord obj))) n =
     (case map snd (filter (\<lambda>p. lower_ascii (fst p) = lower_ascii n) obj) of
        [] \<Rightarrow> None | vs \<Rightarrow> Some (join_with '', '' vs))"
  by (simp add: header_get_def filter_map comp_def case_prod_beta)

text \<open>Reading a header of a record whose other keys are not spellings of it.\<close>

lemma header_get_record:
  assumes "obj_wf obj" and "\<forall>k' \<in> set (obj_keys obj). lower_ascii k' = lower_ascii k \<longrightarrow> k' = k"
  shows "header_get (map (\<lambda>(n, v). (lower_ascii n, v)) obj) k = map_of obj k"
proof -
  have "filter (\<lambda>p. lower_ascii (fst p) = lower_ascii k) obj = filter (\<lambda>p. fst p = k) obj"
    using assms(2) by (intro filter_cong) (auto simp: obj_keys_def)
  then have "filter (\<lambda>(k', _). k' = lower_ascii k) (map (\<lambda>(n, v). (lower_ascii n, v)) obj)
      = map (\<lambda>(n, v). (lower_ascii n, v)) (filter (\<lambda>p. fst p = k) obj)"
    by (simp add: filter_map comp_def case_prod_beta)
  then show ?thesis
    using filter_key_wf [OF assms(1), of k]
    by (simp add: header_get_def split: option.splits)
qed

end
