(* ===== verification/Json.thy ===== *)
theory Json
  imports Prelude
begin

text \<open>
  \<open>JSON.stringify\<close> of the ECMAScript specification on the values a request
  body can hold: \<open>undefined\<close>, \<open>null\<close>, booleans, integral numbers, strings,
  arrays and plain objects (properties in insertion order). It is platform
  code, modelled from the specification; \<open>post\<close> and \<open>put\<close> of the client
  call it on their payload.
\<close>

datatype js_value =
    JUndefined
  | JNull
  | JBool bool
  | JNumber int
  | JString string
  | JArray "js_value list"
  | JObject "(string \<times> js_value) list"

definition hex_digit :: "nat \<Rightarrow> char" where
  "hex_digit n = (if n < 10 then char_of (48 + n) else char_of (87 + n))"

text \<open>
  QuoteJSONString: the quote and the backslash are escaped, the five control
  characters with a short escape use it, the other control characters become
  \<open>\u00XY\<close>, everything else is copied.
\<close>

definition escape_char :: "char \<Rightarrow> string" where
  "escape_char c =
     (let n = of_char c :: nat in
      if n = 0x22 then [CHR 0x5C, CHR 0x22]
      else if n = 0x5C then [CHR 0x5C, CHR 0x5C]
      else if n = 0x08 then [CHR 0x5C, CHR ''b'']
      else if n = 0x0C then [CHR 0x5C, CHR ''f'']
      else if n = 0x0A then [CHR 0x5C, CHR ''n'']
      else if n = 0x0D then [CHR 0x5C, CHR ''r'']
      else if n = 0x09 then [CHR 0x5C, CHR ''t'']
      else if n < 0x20 then [CHR 0x5C, CHR ''u'', CHR ''0'', CHR ''0'', hex_digit (n div 16), hex_digit (n mod 16)]
      else [c])"

definition quote_json :: "string \<Rightarrow> string" where
  "quote_json s = [CHR 0x22] @ concat (map escape_char s) @ [CHR 0x22]"

text \<open>
  \<open>undefined\<close> has no serialisation: at the top it gives \<open>undefined\<close>
  (\<open>None\<close>), inside an array \<open>null\<close>, and a property holding it is left out.
\<close>

fun stringify :: "js_value \<Rightarrow> string option" where
  "stringify JUndefined = None"
| "stringify JNull = Some ''null''"
| "stringify (JBool b) = Some (if b then ''true'' else ''false'')"
| "stringify (JNumber i) = Some (int_string i)"
| "stringify (JString s) = Some (quote_json s)"
| "stringify (JArray xs) =
     Some (''['' @ join_with '','' (map (\<lambda>x. case stringify x of None \<Rightarrow> ''null'' | Some s \<Rightarrow> s) xs) @ '']'')"
| "stringify (JObject ps) =
     Some (''{'' @ join_with '',''
        (concat (map (\<lambda>(k, v). case stringify v of None \<Rightarrow> [] | Some s \<Rightarrow> [quote_json k @ '':'' @ s]) ps))
        @ ''}'')"

lemma stringify_defined: "stringify v = None \<longleftrightarrow> v = JUndefined"
  by (cases v) simp_all

end
