(* ===== verification/Fetcher.thy ===== *)
theory Fetcher
  imports Runtime Json
begin

text \<open>
  The request client of \<open>src/src/apis/fetcher.ts\<close>: the class \<open>Fetcher\<close>,
  its private \<open>request\<close> (timeout by an abort timer, blind retry after a
  fixed delay, error wrapping) and the verbs \<open>get\<close>, \<open>post\<close>, \<open>put\<close>,
  \<open>delete\<close>. A call runs in the world of \<open>Runtime\<close>; its result is the value
  the returned promise settles with, \<open>Inl\<close> for a rejection.
  The contract the client implements and the properties of these
  definitions are in \<open>FetcherSpec\<close>.
\<close>

section \<open>Constants and options (lines 1--10)\<close>

definition BASE_URL :: string where
  "BASE_URL = ''/api''"

definition DEFAULT_TIMEOUT :: nat where
  "DEFAULT_TIMEOUT = 10000"

definition DEFAULT_RETRIES :: int where
  "DEFAULT_RETRIES = 1"

definition DEFAULT_RETRY_DELAY :: nat where
  "DEFAULT_RETRY_DELAY = 500"

text \<open>\<open>interface FetchOptions extends RequestInit\<close>: a record extension.\<close>

record fetch_options = request_init +
  timeout :: "nat option"
  retries :: "int option"
  retryDelay :: "nat option"

text \<open>The default argument \<open>options = {}\<close> of every method.\<close>

definition empty_options :: fetch_options where
  "empty_options = \<lparr>http_method = None, body = None, headers = None, credentials = None, cache = None,
     signal = None, timeout = None, retries = None, retryDelay = None\<rparr>"

section \<open>The class (lines 12--17)\<close>

record fetcher =
  baseUrl :: string

definition new_Fetcher :: "string option \<Rightarrow> fetcher" where
  "new_Fetcher b = \<lparr>baseUrl = BASE_URL @ (case b of None \<Rightarrow> [] | Some s \<Rightarrow> s)\<rparr>"

section \<open>request (lines 19--66)\<close>

text \<open>The destructuring with defaults, lines 23--28.\<close>

definition resolve_timeout :: "fetch_options \<Rightarrow> nat" where
  "resolve_timeout options = (case timeout options of None \<Rightarrow> DEFAULT_TIMEOUT | Some t \<Rightarrow> t)"

definition resolve_retries :: "fetch_options \<Rightarrow> int" where
  "resolve_retries options = (case retries options of None \<Rightarrow> DEFAULT_RETRIES | Some r \<Rightarrow> r)"

definition resolve_retry_delay :: "fetch_options \<Rightarrow> nat" where
  "resolve_retry_delay options =
     (case retryDelay options of None \<Rightarrow> DEFAULT_RETRY_DELAY | Some d \<Rightarrow> d)"

text \<open>\<open>...fetchOptions\<close>: everything but the three client options.\<close>

definition rest_options :: "fetch_options \<Rightarrow> request_init" where
  "rest_options options = request_init.truncate options"

text \<open>
  The init object of lines 34--42: the caller's fields, then the controller's
  signal, \<open>credentials: 'include'\<close> and a header object in which the
  caller's own header properties are spread over the JSON content type.
\<close>

definition default_headers :: "string js_obj" where
  "default_headers = [(''Content-Type'', ''application/json'')]"

definition fetch_init :: "request_init \<Rightarrow> nat \<Rightarrow> request_init" where
  "fetch_init fetchOptions ctrl =
     fetchOptions\<lparr>signal := Some ctrl, credentials := Some ''include'',
       headers := Some (HRecord (obj_spread default_headers (own_props (headers fetchOptions))))\<rparr>"

definition http_error :: "nat \<Rightarrow> js_error" where
  "http_error st = JsError ''Error'' (''HTTP error! status: '' @ nat_string st)"

text \<open>Lines 62--64: the message names \<open>DEFAULT_RETRIES\<close>, not the budget used.\<close>

definition final_error :: "js_error \<Rightarrow> js_error" where
  "final_error e =
     JsError ''Error'' (''Request failed after '' @ int_string DEFAULT_RETRIES @ '' retries: '' @
       (case e of JsError _ m \<Rightarrow> m | NonError \<Rightarrow> ''Unknown error''))"

text \<open>
  The \<open>try\<close> block, lines 33--50. It either returns (\<open>return response.json()\<close>
  hands the promise of the body to the caller, outside the \<open>catch\<close>) or throws
  into the \<open>catch\<close>.
\<close>

datatype 'v try_outcome = Returned "js_error + 'v" | Threw js_error

definition request_try ::
  "'v network \<Rightarrow> fetcher \<Rightarrow> string \<Rightarrow> request_init \<Rightarrow> nat \<Rightarrow> world \<Rightarrow> 'v try_outcome \<times> world" where
  "request_try net f url fetchOptions timeoutId w =
     (let (r, w1) = fetch net (baseUrl f @ url) (fetch_init fetchOptions timeoutId) w in
      case r of
        Inl e \<Rightarrow> (Threw e, w1)
      | Inr response \<Rightarrow>
          let w2 = clear_timeout timeoutId w1 in
          if \<not> response_ok response then (Threw (http_error (status response)), w2)
          else let (j, w3) = response_json response w2 in (Returned j, w3))"

text \<open>
  The whole method: arm the abort timer (its id is the controller), run the
  \<open>try\<close> block, and in the \<open>catch\<close> clear the timer and either sleep and
  call itself with one retry less, or throw the final error.
\<close>

function (domintros) request ::
  "'v network \<Rightarrow> fetcher \<Rightarrow> string \<Rightarrow> fetch_options \<Rightarrow> world \<Rightarrow> (js_error + 'v) \<times> world" where
  "request net f url options w =
     (let (timeoutId, w1) = set_timeout (resolve_timeout options) w;
          (out, w2) = request_try net f url (rest_options options) timeoutId w1
      in case out of
           Returned r \<Rightarrow> (r, w2)
         | Threw e \<Rightarrow>
             let w3 = clear_timeout timeoutId w2 in
             if 0 < resolve_retries options
             then request net f url (options\<lparr>retries := Some (resolve_retries options - 1)\<rparr>)
                    (sleep (resolve_retry_delay options) w3)
             else (Inl (final_error e), w3))"
  by pat_completeness auto
termination
  by (relation "measure (\<lambda>(net, f, url, options, w). nat (resolve_retries options))")
     (auto simp: resolve_retries_def)

declare request.simps [simp del]

section \<open>The verbs (lines 68--110)\<close>

definition get ::
  "'v network \<Rightarrow> fetcher \<Rightarrow> string \<Rightarrow> fetch_options \<Rightarrow> world \<Rightarrow> (js_error + 'v) \<times> world" where
  "get net f url options = request net f url (options\<lparr>http_method := Some ''GET''\<rparr>)"

definition post ::
  "'v network \<Rightarrow> fetcher \<Rightarrow> string \<Rightarrow> js_value \<Rightarrow> fetch_options \<Rightarrow> world \<Rightarrow> (js_error + 'v) \<times> world" where
  "post net f url bodyValue options =
     request net f url (options\<lparr>http_method := Some ''POST'', body := stringify bodyValue\<rparr>)"

definition put ::
  "'v network \<Rightarrow> fetcher \<Rightarrow> string \<Rightarrow> js_value \<Rightarrow> fetch_options \<Rightarrow> world \<Rightarrow> (js_error + 'v) \<times> world" where
  "put net f url bodyValue options =
     request net f url (options\<lparr>http_method := Some ''PUT'', body := stringify bodyValue\<rparr>)"

definition delete ::
  "'v network \<Rightarrow> fetcher \<Rightarrow> string \<Rightarrow> fetch_options \<Rightarrow> world \<Rightarrow> (js_error + 'v) \<times> world" where
  "delete net f url options = request net f url (options\<lparr>http_method := Some ''DELETE''\<rparr>)"

end
