(* ===== verification/FetcherSpec.thy ===== *)
theory FetcherSpec
  imports Fetcher
begin

text \<open>
  What the request client of \<open>Fetcher\<close> promises and the proof that it keeps
  the promise. The contract is \<open>retry_spec\<close>: one verdict per attempt
  (\<open>classify\<close>), retried while the budget lasts; \<open>retry_attempts\<close> and
  \<open>retry_time\<close> count the attempts and the time. The refinement lemma
  \<open>request_run\<close> proves by induction on the budget that \<open>request\<close>
  implements the contract, and the properties of the client follow from it.
\<close>

section \<open>The contract: one verdict per attempt, retried while the budget lasts\<close>

datatype 'v verdict = Success 'v | Undecodable string | Failure js_error

text \<open>
  What one attempt amounts to, from the scripted network attempt and the
  timeout alone: an abort when the headers take \<open>tmo\<close> or longer, a
  \<open>TypeError\<close> for a network failure, an HTTP error for a status outside
  200--299, else the body.
\<close>

fun classify :: "nat \<Rightarrow> 'v attempt \<Rightarrow> 'v verdict" where
  "classify tmo (NetworkFailure lat msg) =
     Failure (if tmo \<le> lat then abort_error else JsError ''TypeError'' msg)"
| "classify tmo (Reply lat st blat p) =
     (if tmo \<le> lat then Failure abort_error
      else if \<not> status_ok st then Failure (http_error st)
      else (case p of JsonText v \<Rightarrow> Success v | MalformedJson m \<Rightarrow> Undecodable m))"

text \<open>
  The settled value of a call whose attempts, counted from \<open>i\<close>, have the
  verdicts \<open>V\<close>, with \<open>k\<close> retries left; and the number of attempts made.
\<close>

fun retry_spec :: "(nat \<Rightarrow> 'v verdict) \<Rightarrow> nat \<Rightarrow> nat \<Rightarrow> js_error + 'v" where
  "retry_spec V i k =
     (case V i of
        Success v \<Rightarrow> Inr v
      | Undecodable m \<Rightarrow> Inl (JsError ''SyntaxError'' m)
      | Failure e \<Rightarrow> (case k of 0 \<Rightarrow> Inl (final_error e) | Suc k' \<Rightarrow> retry_spec V (Suc i) k'))"

fun retry_attempts :: "(nat \<Rightarrow> 'v verdict) \<Rightarrow> nat \<Rightarrow> nat \<Rightarrow> nat" where
  "retry_attempts V i k =
     (case V i of
        Failure e \<Rightarrow> (case k of 0 \<Rightarrow> 1 | Suc k' \<Rightarrow> Suc (retry_attempts V (Suc i) k'))
      | _ \<Rightarrow> 1)"


text \<open>
  How long one attempt takes: until the abort when the headers are late,
  until the headers for a failure or a bad status, and until the end of the
  body otherwise (the body is read after the abort timer has been cleared).
  The whole call adds the retry delay before every further attempt.
\<close>

fun attempt_time :: "nat \<Rightarrow> 'v attempt \<Rightarrow> nat" where
  "attempt_time tmo (NetworkFailure lat _) = min tmo lat"
| "attempt_time tmo (Reply lat st blat _) =
     (if tmo \<le> lat then tmo else if status_ok st then lat + blat else lat)"

fun retry_time :: "nat \<Rightarrow> nat \<Rightarrow> 'v network \<Rightarrow> nat \<Rightarrow> nat \<Rightarrow> nat" where
  "retry_time tmo dly net i k =
     attempt_time tmo (net i) +
     (case classify tmo (net i) of
        Failure e \<Rightarrow> (case k of 0 \<Rightarrow> 0 | Suc k' \<Rightarrow> dly + retry_time tmo dly net (Suc i) k')
      | _ \<Rightarrow> 0)"

text \<open>The try block of one attempt as the contract sees it.\<close>

definition try_of :: "'v verdict \<Rightarrow> 'v try_outcome" where
  "try_of vd = (case vd of Success v \<Rightarrow> Returned (Inr v)
     | Undecodable m \<Rightarrow> Returned (Inl (JsError ''SyntaxError'' m)) | Failure e \<Rightarrow> Threw e)"

text \<open>The first attempt of a call, in terms of its verdict.\<close>

definition first_world :: "'v network \<Rightarrow> fetcher \<Rightarrow> string \<Rightarrow> fetch_options \<Rightarrow> world \<Rightarrow> world" where
  "first_world net f url options w =
     snd (request_try net f url (rest_options options) (next_id w)
       (snd (set_timeout (resolve_timeout options) w)))"

text \<open>
  A declarative reference for the retry loop: the attempt that settles a call
  is the first one, within the budget, whose verdict is not a failure, or the
  last one allowed; the call's value is that attempt's value, a failure
  wrapped in the final error.
\<close>

definition is_failure :: "'v verdict \<Rightarrow> bool" where
  "is_failure vd \<longleftrightarrow> (case vd of Failure _ \<Rightarrow> True | _ \<Rightarrow> False)"

definition verdict_value :: "'v verdict \<Rightarrow> js_error + 'v" where
  "verdict_value vd = (case vd of Success v \<Rightarrow> Inr v | Undecodable m \<Rightarrow> Inl (JsError ''SyntaxError'' m)
     | Failure e \<Rightarrow> Inl (final_error e))"

definition settle_index :: "(nat \<Rightarrow> 'v verdict) \<Rightarrow> nat \<Rightarrow> nat \<Rightarrow> nat" where
  "settle_index V i k = (case find (\<lambda>j. \<not> is_failure (V (i + j))) [0..<k] of Some j \<Rightarrow> j | None \<Rightarrow> k)"

section \<open>Lemmas: the contract\<close>

text \<open>Definitions to unfold when a call is evaluated on literal options.\<close>

lemmas options_eval = world_ok_def body_forbidden_def fetch_method_def rest_options_def
  empty_options_def request_init.truncate_def resolve_timeout_def resolve_retries_def
  resolve_retry_delay_def DEFAULT_TIMEOUT_def DEFAULT_RETRIES_def DEFAULT_RETRY_DELAY_def
  status_ok_def


lemma retry_spec_Success: "V i = Success v \<Longrightarrow> retry_spec V i k = Inr v"
  and retry_spec_Undecodable: "V i = Undecodable m \<Longrightarrow> retry_spec V i k = Inl (JsError ''SyntaxError'' m)"
  and retry_spec_Failure_0: "V i = Failure e \<Longrightarrow> retry_spec V i 0 = Inl (final_error e)"
  and retry_spec_Failure_Suc: "V i = Failure e \<Longrightarrow> retry_spec V i (Suc k) = retry_spec V (Suc i) k"
  by simp_all

lemma retry_attempts_Success: "V i = Success v \<Longrightarrow> retry_attempts V i k = 1"
  and retry_attempts_Undecodable: "V i = Undecodable m \<Longrightarrow> retry_attempts V i k = 1"
  and retry_attempts_Failure_0: "V i = Failure e \<Longrightarrow> retry_attempts V i 0 = 1"
  and retry_attempts_Failure_Suc:
    "V i = Failure e \<Longrightarrow> retry_attempts V i (Suc k) = Suc (retry_attempts V (Suc i) k)"
  by simp_all

lemma retry_time_Success: "classify tmo (net i) = Success v \<Longrightarrow>
    retry_time tmo dly net i k = attempt_time tmo (net i)"
  and retry_time_Undecodable: "classify tmo (net i) = Undecodable m \<Longrightarrow>
    retry_time tmo dly net i k = attempt_time tmo (net i)"
  and retry_time_Failure_0: "classify tmo (net i) = Failure e \<Longrightarrow>
    retry_time tmo dly net i 0 = attempt_time tmo (net i)"
  and retry_time_Failure_Suc: "classify tmo (net i) = Failure e \<Longrightarrow>
    retry_time tmo dly net i (Suc k) = attempt_time tmo (net i) + dly + retry_time tmo dly net (Suc i) k"
  by (auto split: verdict.splits)

lemmas retry_time.simps [simp del]
  and retry_time_simps [simp] = retry_time_Success retry_time_Undecodable
    retry_time_Failure_0 retry_time_Failure_Suc

lemmas retry_spec.simps [simp del] retry_attempts.simps [simp del]
  and retry_simps [simp] = retry_spec_Success retry_spec_Undecodable retry_spec_Failure_0
    retry_spec_Failure_Suc retry_attempts_Success retry_attempts_Undecodable
    retry_attempts_Failure_0 retry_attempts_Failure_Suc

lemma retry_spec_recovers:
  "n \<le> k \<Longrightarrow> (\<forall>j < n. \<exists>e. V (i + j) = Failure e) \<Longrightarrow> V (i + n) = Success v \<Longrightarrow>
   retry_spec V i k = Inr v \<and> retry_attempts V i k = Suc n"
proof (induction n arbitrary: i k)
  case 0
  then show ?case by simp
next
  case (Suc n)
  then obtain k' where k: "k = Suc k'" by (cases k) auto
  from Suc.prems(2) obtain e where e: "V i = Failure e" by (metis add_0_right zero_less_Suc)
  have "retry_spec V (Suc i) k' = Inr v \<and> retry_attempts V (Suc i) k' = Suc n"
    using Suc.prems k by (intro Suc.IH) (auto simp: add_Suc_shift)
  with e k show ?case by simp
qed

lemma retry_spec_gives_up:
  "(\<forall>j < k. \<exists>e. V (i + j) = Failure e) \<Longrightarrow> V (i + k) = Failure e \<Longrightarrow>
   retry_spec V i k = Inl (final_error e) \<and> retry_attempts V i k = Suc k"
proof (induction k arbitrary: i)
  case 0
  then show ?case by simp
next
  case (Suc k)
  from Suc.prems(1) obtain e' where e': "V i = Failure e'" by (metis add_0_right zero_less_Suc)
  have "retry_spec V (Suc i) k = Inl (final_error e) \<and> retry_attempts V (Suc i) k = Suc k"
    using Suc.prems by (intro Suc.IH) (auto simp: add_Suc_shift)
  with e' show ?case by simp
qed

lemma retry_attempts_bounds: "1 \<le> retry_attempts V i k \<and> retry_attempts V i k \<le> Suc k"
proof (induction k arbitrary: i)
  case 0
  then show ?case by (cases "V i") simp_all
next
  case (Suc k)
  then show ?case by (cases "V i") (auto simp: Suc.IH)
qed

lemma attempt_time_failure: "classify tmo a = Failure e \<Longrightarrow> attempt_time tmo a \<le> tmo"
  by (cases a) (auto split: if_splits payload.splits)

lemma retry_time_failure_bound:
  assumes "\<forall>j. \<exists>e. classify tmo (net j) = Failure e"
  shows "retry_time tmo dly net i k \<le> Suc k * tmo + k * dly"
proof (induction k arbitrary: i)
  case 0
  from assms obtain e where "classify tmo (net i) = Failure e" by blast
  then show ?case using attempt_time_failure [of tmo "net i" e] by simp
next
  case (Suc k)
  from assms obtain e where f: "classify tmo (net i) = Failure e" by blast
  have "attempt_time tmo (net i) \<le> tmo" by (rule attempt_time_failure [OF f])
  with Suc.IH [of "Suc i"] f show ?case by simp
qed

text \<open>The recursive contract agrees with the declarative reference.\<close>

lemma settle_index_Suc:
  "settle_index V i (Suc k) = (if is_failure (V i) then Suc (settle_index V (Suc i) k) else 0)"
proof -
  have "[0..<Suc k] = 0 # map Suc [0..<k]" by (simp add: map_Suc_upt upt_conv_Cons)
  then show ?thesis
    by (auto simp: settle_index_def find_map_Suc split: option.splits)
qed

lemma retry_spec_settle:
  "retry_spec V i k = verdict_value (V (i + settle_index V i k))
   \<and> retry_attempts V i k = Suc (settle_index V i k)"
proof (induction k arbitrary: i)
  case 0
  then show ?case
    by (cases "V i") (simp_all add: settle_index_def verdict_value_def)
next
  case (Suc k)
  then show ?case
    by (cases "V i") (simp_all add: settle_index_Suc is_failure_def verdict_value_def)
qed

section \<open>Lemmas: one attempt\<close>

lemma fetch_init_simps [simp]:
  "signal (fetch_init fo tid) = Some tid"
  "http_method (fetch_init fo tid) = http_method fo"
  "body (fetch_init fo tid) = body fo"
  "credentials (fetch_init fo tid) = Some ''include''"
  "cache (fetch_init fo tid) = cache fo"
  by (simp_all add: fetch_init_def)

lemma body_forbidden_fetch_init [simp]:
  "body_forbidden (fetch_init fo tid) = body_forbidden fo"
  by (simp add: body_forbidden_def fetch_method_def)

text \<open>Reading a header of a request: the default and the caller's properties of that spelling, merged.\<close>

lemma header_get_fetch_init:
  "header_get (header_list (headers (fetch_init fo c))) n =
     (case map snd (obj_spread (filter (\<lambda>p. lower_ascii (fst p) = lower_ascii n) default_headers)
                      (filter (\<lambda>p. lower_ascii (fst p) = lower_ascii n) (own_props (headers fo)))) of
        [] \<Rightarrow> None | vs \<Rightarrow> Some (join_with '', '' vs))"
  using header_get_HRecord [of "obj_spread default_headers (own_props (headers fo))" n]
    filter_obj_spread [of "\<lambda>k. lower_ascii k = lower_ascii n" default_headers "own_props (headers fo)"]
  by (simp add: fetch_init_def)

lemma lower_content_type [simp]: "lower_ascii ''Content-Type'' = ''content-type''"
  by (simp add: string_eval)

lemma default_headers_filter:
  "filter (\<lambda>p. lower_ascii (fst p) = ''content-type'') default_headers = default_headers"
  by (simp add: default_headers_def)

lemma request_try_result:
  assumes "\<not> body_forbidden fo" and "map_of (timers w) tid = Some (now w + tmo)"
  shows "fst (request_try net f url fo tid w) = try_of (classify tmo (net (length (sent w))))"
proof (cases "net (length (sent w))")
  case (NetworkFailure lat msg)
  with assms show ?thesis
    by (simp add: request_try_def fetch_NetworkFailure try_of_def)
next
  case (Reply lat st blat p)
  with assms show ?thesis
    by (auto simp add: request_try_def fetch_Reply try_of_def response_ok_def split_def Let_def split: payload.splits)
qed

lemma request_try_world:
  assumes "\<not> body_forbidden fo"
  shows "sent (snd (request_try net f url fo tid w)) =
           sent w @ [\<lparr>sent_url = baseUrl f @ url, sent_init = fetch_init fo tid, sent_at = now w\<rparr>]"
    and "next_id (snd (request_try net f url fo tid w)) = next_id w"
    and "set (timers (snd (request_try net f url fo tid w))) \<subseteq> set (timers w)"
  using assms timers_fetch_subset [of net "baseUrl f @ url" "fetch_init fo tid" w]
  by (auto simp: request_try_def sent_fetch split_def Let_def split: sum.splits)

lemma request_try_now:
  assumes "\<not> body_forbidden fo" and "map_of (timers w) tid = Some (now w + tmo)"
  shows "now (snd (request_try net f url fo tid w)) = now w + attempt_time tmo (net (length (sent w)))"
proof (cases "net (length (sent w))")
  case (NetworkFailure lat msg)
  with assms show ?thesis
    by (simp add: request_try_def fetch_NetworkFailure)
next
  case (Reply lat st blat p)
  with assms show ?thesis
    by (auto simp add: request_try_def fetch_Reply response_ok_def split_def Let_def)
qed

lemma world_ok_request_try:
  "world_ok w \<Longrightarrow> world_ok (snd (request_try net f url fo tid w))"
  by (auto simp: request_try_def split_def Let_def split: sum.splits)

text \<open>When the try block returns, it has cleared its timer.\<close>

lemma request_try_returned_timers:
  assumes "fst (request_try net f url fo tid w) = Returned r"
  shows "set (timers (snd (request_try net f url fo tid w))) \<subseteq> {p \<in> set (timers w). fst p \<noteq> tid}"
  using assms timers_fetch_subset [of net "baseUrl f @ url" "fetch_init fo tid" w]
  by (auto simp: request_try_def split_def Let_def split: sum.splits if_splits)

lemma request_step:
  assumes "set_timeout (resolve_timeout options) w = (tid, w1)"
    and "request_try net f url (rest_options options) tid w1 = (out, w2)"
  shows "request net f url options w =
    (case out of
       Returned r \<Rightarrow> (r, w2)
     | Threw e \<Rightarrow>
         if 0 < resolve_retries options
         then request net f url (options\<lparr>retries := Some (resolve_retries options - 1)\<rparr>)
                (sleep (resolve_retry_delay options) (clear_timeout tid w2))
         else (Inl (final_error e), clear_timeout tid w2))"
  by (subst request.simps) (simp add: assms split: try_outcome.splits)

lemma resolve_retries_update [simp]:
  "resolve_retries (options\<lparr>retries := Some r\<rparr>) = r"
  "resolve_timeout (options\<lparr>retries := Some r\<rparr>) = resolve_timeout options"
  "resolve_retry_delay (options\<lparr>retries := Some r\<rparr>) = resolve_retry_delay options"
  "rest_options (options\<lparr>retries := Some r\<rparr>) = rest_options options"
  by (simp_all add: resolve_retries_def resolve_timeout_def resolve_retry_delay_def rest_options_def
      request_init.truncate_def)

lemma fresh_timer_deadline:
  assumes "world_ok w"
  shows "map_of (timers (snd (set_timeout d w))) (next_id w) = Some (now w + d)"
proof -
  from assms have "map_of (timers w) (next_id w) = None"
    by (auto simp: world_ok_def map_of_eq_None_iff)
  then show ?thesis by (simp add: map_add_def)
qed

section \<open>Lemmas: the whole call refines the contract\<close>

lemma request_unfold:
  assumes "world_ok w" and "\<not> body_forbidden (rest_options options)"
  shows "request net f url options w =
    (case classify (resolve_timeout options) (net (length (sent w))) of
       Success v \<Rightarrow> (Inr v, first_world net f url options w)
     | Undecodable m \<Rightarrow> (Inl (JsError ''SyntaxError'' m), first_world net f url options w)
     | Failure e \<Rightarrow>
         if 0 < resolve_retries options
         then request net f url (options\<lparr>retries := Some (resolve_retries options - 1)\<rparr>)
                (sleep (resolve_retry_delay options) (clear_timeout (next_id w) (first_world net f url options w)))
         else (Inl (final_error e), clear_timeout (next_id w) (first_world net f url options w)))"
proof -
  let ?tmo = "resolve_timeout options"
  let ?w1 = "snd (set_timeout ?tmo w)"
  let ?fo = "rest_options options"
  have st: "set_timeout ?tmo w = (next_id w, ?w1)" by (simp add: set_timeout_def)
  have dl: "map_of (timers ?w1) (next_id w) = Some (now ?w1 + ?tmo)"
    using fresh_timer_deadline [OF assms(1)] by simp
  have out: "fst (request_try net f url ?fo (next_id w) ?w1) = try_of (classify ?tmo (net (length (sent w))))"
    using request_try_result [OF assms(2) dl] by simp
  let ?rt = "request_try net f url ?fo (next_id w) ?w1"
  have step: "request net f url options w =
    (case fst ?rt of
       Returned r \<Rightarrow> (r, snd ?rt)
     | Threw e \<Rightarrow>
         if 0 < resolve_retries options
         then request net f url (options\<lparr>retries := Some (resolve_retries options - 1)\<rparr>)
                (sleep (resolve_retry_delay options) (clear_timeout (next_id w) (snd ?rt)))
         else (Inl (final_error e), clear_timeout (next_id w) (snd ?rt)))"
    by (rule request_step [OF st]) simp
  show ?thesis
    unfolding step out first_world_def [symmetric]
    by (simp add: try_of_def split: verdict.split)
qed

lemma first_world_facts:
  assumes "world_ok w" and "\<not> body_forbidden (rest_options options)"
  shows "sent (first_world net f url options w) =
           sent w @ [\<lparr>sent_url = baseUrl f @ url, sent_init = fetch_init (rest_options options) (next_id w), sent_at = now w\<rparr>]"
    and "world_ok (first_world net f url options w)"
    and "set (timers (first_world net f url options w)) \<subseteq> insert (next_id w, now w + resolve_timeout options) (set (timers w))"
    and "now (first_world net f url options w) =
           now w + attempt_time (resolve_timeout options) (net (length (sent w)))"
proof -
  let ?w1 = "snd (set_timeout (resolve_timeout options) w)"
  have dl: "map_of (timers ?w1) (next_id w) = Some (now ?w1 + resolve_timeout options)"
    using fresh_timer_deadline [OF assms(1)] by simp
  show "sent (first_world net f url options w) =
           sent w @ [\<lparr>sent_url = baseUrl f @ url, sent_init = fetch_init (rest_options options) (next_id w), sent_at = now w\<rparr>]"
    and "world_ok (first_world net f url options w)"
    and "set (timers (first_world net f url options w)) \<subseteq> insert (next_id w, now w + resolve_timeout options) (set (timers w))"
    using assms request_try_world [OF assms(2), of net f url "next_id w" ?w1]
    by (auto simp: first_world_def intro!: world_ok_request_try world_ok_set_timeout)
  show "now (first_world net f url options w) =
           now w + attempt_time (resolve_timeout options) (net (length (sent w)))"
    using request_try_now [OF assms(2) dl] by (simp add: first_world_def)
qed

lemma first_world_timers:
  assumes "world_ok w" and "\<not> body_forbidden (rest_options options)"
  shows "set (timers (clear_timeout (next_id w) (first_world net f url options w))) \<subseteq> set (timers w)"
    and "\<forall>e. classify (resolve_timeout options) (net (length (sent w))) \<noteq> Failure e \<Longrightarrow>
         set (timers (first_world net f url options w)) \<subseteq> set (timers w)"
proof -
  show "set (timers (clear_timeout (next_id w) (first_world net f url options w))) \<subseteq> set (timers w)"
    using first_world_facts(3) [OF assms, of net f url] by auto
next
  let ?w1 = "snd (set_timeout (resolve_timeout options) w)"
  assume nf: "\<forall>e. classify (resolve_timeout options) (net (length (sent w))) \<noteq> Failure e"
  have dl: "map_of (timers ?w1) (next_id w) = Some (now ?w1 + resolve_timeout options)"
    using fresh_timer_deadline [OF assms(1)] by simp
  from nf obtain r where "fst (request_try net f url (rest_options options) (next_id w) ?w1) = Returned r"
    using request_try_result [OF assms(2) dl, of net f url]
    by (auto simp: try_of_def split: verdict.splits)
  from request_try_returned_timers [OF this]
  show "set (timers (first_world net f url options w)) \<subseteq> set (timers w)"
    by (auto simp: first_world_def)
qed

lemma request_run:
  assumes "world_ok w" and "\<not> body_forbidden (rest_options options)"
    and "nat (resolve_retries options) = k"
  shows "fst (request net f url options w) =
           retry_spec (\<lambda>i. classify (resolve_timeout options) (net i)) (length (sent w)) k
    \<and> length (sent (snd (request net f url options w))) =
           length (sent w) + retry_attempts (\<lambda>i. classify (resolve_timeout options) (net i)) (length (sent w)) k
    \<and> take (length (sent w)) (sent (snd (request net f url options w))) = sent w
    \<and> (\<forall>r \<in> set (drop (length (sent w)) (sent (snd (request net f url options w)))).
           sent_url r = baseUrl f @ url \<and> (\<exists>c. sent_init r = fetch_init (rest_options options) c))
    \<and> world_ok (snd (request net f url options w))
    \<and> set (timers (snd (request net f url options w))) \<subseteq> set (timers w)
    \<and> now (snd (request net f url options w)) =
           now w + retry_time (resolve_timeout options) (resolve_retry_delay options) net (length (sent w)) k"
  using assms
proof (induction k arbitrary: options w)
  case 0
  then show ?case
    using first_world_facts [OF "0.prems"(1,2), of net f url]
      first_world_timers [OF "0.prems"(1,2), of net f url]
    by (auto simp: request_unfold [OF "0.prems"(1,2)] split: verdict.splits)
next
  case (Suc k)
  let ?o' = "options\<lparr>retries := Some (resolve_retries options - 1)\<rparr>"
  let ?w' = "sleep (resolve_retry_delay options) (clear_timeout (next_id w) (first_world net f url options w))"
  have pos: "0 < resolve_retries options" using Suc.prems(3) by simp
  have ok': "world_ok ?w'"
    using first_world_facts(2) [OF Suc.prems(1,2)] by blast
  have IH: "fst (request net f url ?o' ?w') =
           retry_spec (\<lambda>i. classify (resolve_timeout options) (net i)) (length (sent ?w')) k
    \<and> length (sent (snd (request net f url ?o' ?w'))) =
           length (sent ?w') + retry_attempts (\<lambda>i. classify (resolve_timeout options) (net i)) (length (sent ?w')) k
    \<and> take (length (sent ?w')) (sent (snd (request net f url ?o' ?w'))) = sent ?w'
    \<and> (\<forall>r \<in> set (drop (length (sent ?w')) (sent (snd (request net f url ?o' ?w')))).
           sent_url r = baseUrl f @ url \<and> (\<exists>c. sent_init r = fetch_init (rest_options options) c))
    \<and> world_ok (snd (request net f url ?o' ?w'))
    \<and> set (timers (snd (request net f url ?o' ?w'))) \<subseteq> set (timers ?w')
    \<and> now (snd (request net f url ?o' ?w')) =
           now ?w' + retry_time (resolve_timeout options) (resolve_retry_delay options) net (length (sent ?w')) k"
    using Suc.IH [of ?w' ?o', OF ok'] Suc.prems(2,3) by simp
  have sent': "sent ?w' = sent w @ [\<lparr>sent_url = baseUrl f @ url,
      sent_init = fetch_init (rest_options options) (next_id w), sent_at = now w\<rparr>]"
    using first_world_facts(1) [OF Suc.prems(1,2)] by simp
  have tm': "set (timers ?w') \<subseteq> set (timers w)"
    using first_world_timers(1) [OF Suc.prems(1,2), of net f url] timers_sleep_subset by blast
  show ?case
  proof (cases "classify (resolve_timeout options) (net (length (sent w)))")
    case (Failure e)
    have req: "request net f url options w = request net f url ?o' ?w'"
      using pos Failure by (simp add: request_unfold [OF Suc.prems(1,2)])
    let ?x = "\<lparr>sent_url = baseUrl f @ url, sent_init = fetch_init (rest_options options) (next_id w),
      sent_at = now w\<rparr>"
    let ?S2 = "sent (snd (request net f url ?o' ?w'))"
    have "?S2 = take (length (sent ?w')) ?S2 @ drop (length (sent ?w')) ?S2" by simp
    also have "\<dots> = sent w @ ?x # drop (length (sent ?w')) ?S2" using IH sent' by simp
    finally have S2: "?S2 = sent w @ ?x # drop (length (sent ?w')) ?S2" .
    have "take (length (sent w)) ?S2 = sent w"
      by (subst S2) simp
    moreover have "\<forall>r \<in> set (drop (length (sent w)) ?S2).
           sent_url r = baseUrl f @ url \<and> (\<exists>c. sent_init r = fetch_init (rest_options options) c)"
      using IH by (subst S2) auto
    moreover have "set (timers (snd (request net f url ?o' ?w'))) \<subseteq> set (timers w)"
      using IH tm' by blast
    moreover have "now ?w' = now w + attempt_time (resolve_timeout options) (net (length (sent w)))
        + resolve_retry_delay options"
      using first_world_facts(4) [OF Suc.prems(1,2)] by simp
    ultimately show ?thesis
      using IH sent' Failure by (simp add: req)
  qed (use first_world_facts [OF Suc.prems(1,2), of net f url]
        first_world_timers [OF Suc.prems(1,2), of net f url]
        in \<open>auto simp add: request_unfold [OF Suc.prems(1,2)]\<close>)
qed

text \<open>The facts of \<open>request_run\<close> one by one, with the budget of the options.\<close>

lemma request_run_inst:
  assumes "world_ok w" and "\<not> body_forbidden (rest_options options)"
  shows "fst (request net f url options w) =
           retry_spec (\<lambda>i. classify (resolve_timeout options) (net i)) (length (sent w)) (nat (resolve_retries options))"
    and "length (sent (snd (request net f url options w))) =
           length (sent w) + retry_attempts (\<lambda>i. classify (resolve_timeout options) (net i)) (length (sent w)) (nat (resolve_retries options))"
    and "now (snd (request net f url options w)) =
           now w + retry_time (resolve_timeout options) (resolve_retry_delay options) net (length (sent w)) (nat (resolve_retries options))"
    and "set (timers (snd (request net f url options w))) \<subseteq> set (timers w)"
    and "take (length (sent w)) (sent (snd (request net f url options w))) = sent w"
    and "\<forall>r \<in> set (drop (length (sent w)) (sent (snd (request net f url options w)))).
           sent_url r = baseUrl f @ url \<and> (\<exists>c. sent_init r = fetch_init (rest_options options) c)"
  using request_run [OF assms refl] by blast+


section \<open>Lemmas: the recursion\<close>

text \<open>A recursive call of \<open>request\<close> spends one unit of a positive budget.\<close>

lemma request_rel_budget:
  assumes "request_rel y (net, f, url, options, w)"
  shows "\<exists>w'. y = (net, f, url, options\<lparr>retries := Some (resolve_retries options - 1)\<rparr>, w')
           \<and> 0 < resolve_retries options"
  using assms by (cases rule: request_rel.cases) auto

lemma request_rel_depth:
  "(request_rel ^^ n) y (net, f, url, options, w) \<Longrightarrow>
   \<exists>options' w'. y = (net, f, url, options', w') \<and> nat (resolve_retries options') + n \<le> nat (resolve_retries options)"
proof (induction n arbitrary: y options w)
  case 0
  then show ?case by auto
next
  case (Suc n)
  from Suc.prems obtain z where yz: "(request_rel ^^ n) y z" and zx: "request_rel z (net, f, url, options, w)"
    by auto
  from request_rel_budget [OF zx] obtain w1 where
    z: "z = (net, f, url, options\<lparr>retries := Some (resolve_retries options - 1)\<rparr>, w1)"
    and pos: "0 < resolve_retries options" by blast
  from Suc.IH [of y "options\<lparr>retries := Some (resolve_retries options - 1)\<rparr>" w1] yz z
  obtain o2 w2 where "y = (net, f, url, o2, w2)"
    and "nat (resolve_retries o2) + n \<le> nat (resolve_retries (options\<lparr>retries := Some (resolve_retries options - 1)\<rparr>))"
    by blast
  with pos show ?case by (auto simp: resolve_retries_def)
qed

section \<open>Properties of the request client\<close>

text \<open>
  C1. Refinement. In a well-formed world, and for a request whose method
  admits its body, the value a call of \<open>request\<close> settles with is the one
  the retry contract \<open>retry_spec\<close> gives for the verdicts of the scripted
  attempts, starting at the next attempt and with the configured retry budget.
\<close>

theorem request_refines_retry_spec:
  assumes "world_ok w" and "\<not> body_forbidden (rest_options options)"
  shows "fst (request net f url options w) =
    retry_spec (\<lambda>i. classify (resolve_timeout options) (net i)) (length (sent w)) (nat (resolve_retries options))"
  using request_run [OF assms refl] by blast

theorem request_refines_retry_spec_witness:
  "world_ok initial_world \<and> \<not> body_forbidden (rest_options (empty_options\<lparr>http_method := Some ''GET''\<rparr>)) \<and>
   fst (request (\<lambda>i. Reply 10 200 5 (JsonText (7::nat))) (new_Fetcher (Some ''/subscriptions'')) ''/user''
     (empty_options\<lparr>http_method := Some ''GET''\<rparr>) initial_world) = Inr 7"
  using request_refines_retry_spec [of initial_world "empty_options\<lparr>http_method := Some ''GET''\<rparr>"
      "\<lambda>i. Reply 10 200 5 (JsonText (7::nat))" "new_Fetcher (Some ''/subscriptions'')" "''/user''"]
  by (simp add: options_eval)

text \<open>
  C2. A first attempt whose headers arrive before the timeout with a status in
  200--299 and a JSON body resolves the call with the decoded value after
  exactly one network call, once the body has been read.
\<close>

theorem request_first_success:
  assumes "world_ok w" and "\<not> body_forbidden (rest_options options)"
    and "net (length (sent w)) = Reply lat st blat (JsonText v)"
    and "lat < resolve_timeout options" and "status_ok st"
  shows "fst (request net f url options w) = Inr v
    \<and> length (sent (snd (request net f url options w))) = Suc (length (sent w))
    \<and> now (snd (request net f url options w)) = now w + lat + blat"
proof -
  have V: "classify (resolve_timeout options) (net (length (sent w))) = Success v"
    using assms(3-5) by simp
  have T: "attempt_time (resolve_timeout options) (net (length (sent w))) = lat + blat"
    using assms(3-5) by simp
  show ?thesis
    using request_run_inst [OF assms(1,2), of net f url] V T by simp
qed

theorem request_first_success_witness:
  "fst (request (\<lambda>i. Reply 120 200 30 (JsonText (1::nat))) (new_Fetcher (Some ''/subscriptions'')) ''/user''
     (empty_options\<lparr>http_method := Some ''GET''\<rparr>) initial_world) = Inr 1
   \<and> length (sent (snd (request (\<lambda>i. Reply 120 200 30 (JsonText (1::nat))) (new_Fetcher (Some ''/subscriptions'')) ''/user''
     (empty_options\<lparr>http_method := Some ''GET''\<rparr>) initial_world))) = 1"
  using request_first_success [of initial_world "empty_options\<lparr>http_method := Some ''GET''\<rparr>"
      "\<lambda>i. Reply 120 200 30 (JsonText (1::nat))" 120 200 30 1 "new_Fetcher (Some ''/subscriptions'')" "''/user''"]
  by (simp add: options_eval)

text \<open>
  C3. Recovery. If the first \<open>n\<close> attempts fail (network error, timeout or
  bad status) and attempt \<open>n + 1\<close> succeeds, with \<open>n\<close> within the retry
  budget, the call resolves with the value of that attempt after exactly
  \<open>n + 1\<close> network calls.
\<close>

theorem request_recovers:
  assumes "world_ok w" and "\<not> body_forbidden (rest_options options)"
    and "n \<le> nat (resolve_retries options)"
    and "\<forall>j < n. \<exists>e. classify (resolve_timeout options) (net (length (sent w) + j)) = Failure e"
    and "classify (resolve_timeout options) (net (length (sent w) + n)) = Success v"
  shows "fst (request net f url options w) = Inr v
    \<and> length (sent (snd (request net f url options w))) = length (sent w) + Suc n"
  using request_run_inst(1,2) [OF assms(1,2), of net f url]
    retry_spec_recovers [OF assms(3-5)] by simp

theorem request_recovers_witness:
  "fst (request (\<lambda>i::nat. if i = 0 then Reply 50 503 0 (JsonText 0) else Reply 40 200 10 (JsonText (1::nat)))
      (new_Fetcher None) ''/x'' (empty_options\<lparr>http_method := Some ''GET''\<rparr>) initial_world) = Inr 1
   \<and> length (sent (snd (request (\<lambda>i::nat. if i = 0 then Reply 50 503 0 (JsonText 0) else Reply 40 200 10 (JsonText (1::nat)))
      (new_Fetcher None) ''/x'' (empty_options\<lparr>http_method := Some ''GET''\<rparr>) initial_world))) = 2"
  using request_recovers [of initial_world "empty_options\<lparr>http_method := Some ''GET''\<rparr>" 1
      "\<lambda>i::nat. if i = 0 then Reply 50 503 0 (JsonText 0) else Reply 40 200 10 (JsonText (1::nat))" 1
      "new_Fetcher None" "''/x''"]
  by (simp add: options_eval)

text \<open>
  C4. Exhaustion. If every attempt within the budget fails, the call rejects
  with the final error built from the cause of the last attempt, after exactly
  budget + 1 network calls.
\<close>

theorem request_gives_up:
  assumes "world_ok w" and "\<not> body_forbidden (rest_options options)"
    and "\<forall>j < nat (resolve_retries options). \<exists>e. classify (resolve_timeout options) (net (length (sent w) + j)) = Failure e"
    and "classify (resolve_timeout options) (net (length (sent w) + nat (resolve_retries options))) = Failure e"
  shows "fst (request net f url options w) = Inl (final_error e)
    \<and> length (sent (snd (request net f url options w))) = length (sent w) + Suc (nat (resolve_retries options))"
  using request_run_inst(1,2) [OF assms(1,2), of net f url]
    retry_spec_gives_up [OF assms(3,4)] by simp

theorem request_gives_up_witness:
  "fst (request (\<lambda>i. NetworkFailure 20 ''Failed to fetch'' :: nat attempt) (new_Fetcher None) ''/x''
      (empty_options\<lparr>http_method := Some ''GET''\<rparr>) initial_world)
     = Inl (final_error (JsError ''TypeError'' ''Failed to fetch''))
   \<and> length (sent (snd (request (\<lambda>i. NetworkFailure 20 ''Failed to fetch'' :: nat attempt) (new_Fetcher None) ''/x''
      (empty_options\<lparr>http_method := Some ''GET''\<rparr>) initial_world))) = 2"
  using request_gives_up [of initial_world "empty_options\<lparr>http_method := Some ''GET''\<rparr>"
      "\<lambda>i. NetworkFailure 20 ''Failed to fetch'' :: nat attempt" "JsError ''TypeError'' ''Failed to fetch''"
      "new_Fetcher None" "''/x''"]
  by (simp add: options_eval)

text \<open>
  C5. Timeout. When the response headers do not arrive before the timeout,
  the abort timer cancels the attempt, which fails with the abort error like
  any other failure; with no retries left the call rejects exactly
  \<open>timeout\<close> milliseconds after it started.
\<close>

theorem request_timeout_aborts:
  assumes "world_ok w" and "\<not> body_forbidden (rest_options options)"
    and "resolve_retries options \<le> 0"
    and "resolve_timeout options \<le> attempt_latency (net (length (sent w)))"
  shows "fst (request net f url options w) = Inl (final_error abort_error)
    \<and> now (snd (request net f url options w)) = now w + resolve_timeout options"
proof -
  have "classify (resolve_timeout options) (net (length (sent w))) = Failure abort_error
      \<and> attempt_time (resolve_timeout options) (net (length (sent w))) = resolve_timeout options"
    using assms(4) by (cases "net (length (sent w))") (simp_all add: min_def)
  with assms(3) show ?thesis
    using request_run_inst(1,3) [OF assms(1,2), of net f url] by simp
qed

theorem request_timeout_aborts_witness:
  "fst (request (\<lambda>i. Reply 5000 200 0 (JsonText (1::nat))) (new_Fetcher None) ''/x''
      (empty_options\<lparr>http_method := Some ''GET'', retries := Some 0, timeout := Some 1000\<rparr>) initial_world)
     = Inl (final_error abort_error)
   \<and> now (snd (request (\<lambda>i. Reply 5000 200 0 (JsonText (1::nat))) (new_Fetcher None) ''/x''
      (empty_options\<lparr>http_method := Some ''GET'', retries := Some 0, timeout := Some 1000\<rparr>) initial_world)) = 1000"
  using request_timeout_aborts [of initial_world
      "empty_options\<lparr>http_method := Some ''GET'', retries := Some 0, timeout := Some 1000\<rparr>"
      "\<lambda>i. Reply 5000 200 0 (JsonText (1::nat))" "new_Fetcher None" "''/x''"]
  by (simp add: options_eval)

text \<open>
  C6. No leaked timers. Every timer a call arms (the abort timer of each
  attempt and the timer of each retry delay) has fired or been cleared when
  the call settles: the pending timers afterwards are among those pending
  before, on the success, failure and decode-failure paths alike.
\<close>

theorem request_no_timer_leak:
  assumes "world_ok w" and "\<not> body_forbidden (rest_options options)"
  shows "set (timers (snd (request net f url options w))) \<subseteq> set (timers w)"
  using request_run_inst(4) [OF assms] .

theorem request_no_timer_leak_witness:
  "set (timers (snd (request (\<lambda>i. NetworkFailure 20 ''Failed to fetch'' :: nat attempt) (new_Fetcher None) ''/x''
      (empty_options\<lparr>http_method := Some ''GET''\<rparr>)
      \<lparr>now = 0, timers = [(0, 99999)], next_id = 1, sent = [], console = []\<rparr>))) \<subseteq> {(0, 99999)}"
  using request_no_timer_leak [of "\<lparr>now = 0, timers = [(0, 99999)], next_id = 1, sent = [], console = []\<rparr>"
      "empty_options\<lparr>http_method := Some ''GET''\<rparr>" "\<lambda>i. NetworkFailure 20 ''Failed to fetch'' :: nat attempt"
      "new_Fetcher None" "''/x''"]
  by (simp add: options_eval)

text \<open>
  C7. Bounded attempts. A call makes at least one and at most budget + 1
  network calls; a negative budget behaves as zero.
\<close>

theorem request_attempts_bounded:
  assumes "world_ok w" and "\<not> body_forbidden (rest_options options)"
  shows "length (sent w) < length (sent (snd (request net f url options w)))
    \<and> length (sent (snd (request net f url options w))) \<le> length (sent w) + nat (resolve_retries options) + 1"
  using request_run_inst(2) [OF assms, of net f url]
    retry_attempts_bounds [of "\<lambda>i. classify (resolve_timeout options) (net i)" "length (sent w)" "nat (resolve_retries options)"]
  by simp

theorem request_attempts_bounded_witness:
  "0 < length (sent (snd (request (\<lambda>i. NetworkFailure 20 ''Failed to fetch'' :: nat attempt) (new_Fetcher None) ''/x''
      (empty_options\<lparr>http_method := Some ''GET'', retries := Some 2\<rparr>) initial_world)))
   \<and> length (sent (snd (request (\<lambda>i. NetworkFailure 20 ''Failed to fetch'' :: nat attempt) (new_Fetcher None) ''/x''
      (empty_options\<lparr>http_method := Some ''GET'', retries := Some 2\<rparr>) initial_world))) \<le> 3"
  using request_attempts_bounded [of initial_world "empty_options\<lparr>http_method := Some ''GET'', retries := Some 2\<rparr>"
      "\<lambda>i. NetworkFailure 20 ''Failed to fetch'' :: nat attempt" "new_Fetcher None" "''/x''"]
  by (simp add: options_eval)

text \<open>
  C8. Decode failures are not retried. When the headers arrive in time with
  a status in 200--299 but the body is not JSON, the call rejects with the raw
  \<open>SyntaxError\<close> of \<open>response.json()\<close>, unwrapped and after one network call,
  whatever retry budget is left: the promise is returned from the \<open>try\<close>
  block without being awaited, so the \<open>catch\<close> never sees its rejection.
\<close>

theorem request_decode_failure_not_retried:
  assumes "world_ok w" and "\<not> body_forbidden (rest_options options)"
    and "net (length (sent w)) = Reply lat st blat (MalformedJson m)"
    and "lat < resolve_timeout options" and "status_ok st"
  shows "fst (request net f url options w) = Inl (JsError ''SyntaxError'' m)
    \<and> length (sent (snd (request net f url options w))) = Suc (length (sent w))"
proof -
  have "classify (resolve_timeout options) (net (length (sent w))) = Undecodable m"
    using assms(3-5) by simp
  then show ?thesis
    using request_run_inst(1,2) [OF assms(1,2), of net f url] by simp
qed

theorem request_decode_failure_not_retried_witness:
  "fst (request (\<lambda>i. Reply 30 200 5 (MalformedJson ''Unexpected token n'') :: nat attempt) (new_Fetcher None) ''/x''
      (empty_options\<lparr>http_method := Some ''GET'', retries := Some 3\<rparr>) initial_world)
     = Inl (JsError ''SyntaxError'' ''Unexpected token n'')
   \<and> length (sent (snd (request (\<lambda>i. Reply 30 200 5 (MalformedJson ''Unexpected token n'') :: nat attempt)
      (new_Fetcher None) ''/x'' (empty_options\<lparr>http_method := Some ''GET'', retries := Some 3\<rparr>) initial_world))) = 1"
  using request_decode_failure_not_retried [of initial_world "empty_options\<lparr>http_method := Some ''GET'', retries := Some 3\<rparr>"
      "\<lambda>i. Reply 30 200 5 (MalformedJson ''Unexpected token n'') :: nat attempt" 30 200 5 "''Unexpected token n''"
      "new_Fetcher None" "''/x''"]
  by (simp add: options_eval)


text \<open>
  C9. The final error misreports the budget. With a budget of three retries
  and a network that always fails, the call makes four network calls and then
  rejects with a message that says it failed after 1 retries: the template
  literal prints the constant \<open>DEFAULT_RETRIES\<close>, not the budget in force.
\<close>

theorem final_message_ignores_budget:
  "fst (request (\<lambda>i. NetworkFailure 5 ''Failed to fetch'' :: nat attempt) (new_Fetcher None) ''/x''
      (empty_options\<lparr>http_method := Some ''GET'', retries := Some 3\<rparr>) initial_world)
     = Inl (JsError ''Error'' ''Request failed after 1 retries: Failed to fetch'')
   \<and> length (sent (snd (request (\<lambda>i. NetworkFailure 5 ''Failed to fetch'' :: nat attempt) (new_Fetcher None) ''/x''
      (empty_options\<lparr>http_method := Some ''GET'', retries := Some 3\<rparr>) initial_world))) = 4"
proof -
  let ?o = "empty_options\<lparr>http_method := Some ''GET'', retries := Some 3\<rparr>"
  have ok: "world_ok initial_world" and nf: "\<not> body_forbidden (rest_options ?o)"
    by (simp_all add: world_ok_def body_forbidden_def fetch_method_def rest_options_def empty_options_def
        request_init.truncate_def)
  have r: "nat (resolve_retries ?o) = 3" and t: "resolve_timeout ?o = 10000"
    by (simp_all add: resolve_retries_def resolve_timeout_def empty_options_def DEFAULT_TIMEOUT_def)
  let ?V = "\<lambda>i. Failure (JsError ''TypeError'' ''Failed to fetch'') :: nat verdict"
  have spec: "retry_spec ?V 0 3 = Inl (final_error (JsError ''TypeError'' ''Failed to fetch''))"
    and count: "retry_attempts ?V 0 3 = 4"
    by (simp_all add: numeral_3_eq_3)
  have msg: "final_error (JsError ''TypeError'' ''Failed to fetch'') =
      JsError ''Error'' ''Request failed after 1 retries: Failed to fetch''"
    by (simp add: final_error_def DEFAULT_RETRIES_def string_eval)
  show ?thesis
    using request_run_inst(1,2) [OF ok nf, of "\<lambda>i. NetworkFailure 5 ''Failed to fetch'' :: nat attempt"
        "new_Fetcher None" "''/x''"]
    unfolding r t by (simp add: spec count msg)
qed

text \<open>
  C10. The timeout does not bound the whole call. The abort timer is cleared
  as soon as the response headers arrive, so reading the body is never
  cancelled: with a timeout of 1 s, headers after 10 ms and a body that takes
  a minute, the call resolves successfully a minute later.
\<close>

theorem body_time_not_bounded:
  "fst (request (\<lambda>i. Reply 10 200 60000 (JsonText (1::nat))) (new_Fetcher None) ''/x''
      (empty_options\<lparr>http_method := Some ''GET'', timeout := Some 1000\<rparr>) initial_world) = Inr 1
   \<and> now (snd (request (\<lambda>i. Reply 10 200 60000 (JsonText (1::nat))) (new_Fetcher None) ''/x''
      (empty_options\<lparr>http_method := Some ''GET'', timeout := Some 1000\<rparr>) initial_world)) = 60010"
proof -
  let ?o = "empty_options\<lparr>http_method := Some ''GET'', timeout := Some 1000\<rparr>"
  have ok: "world_ok initial_world" and nf: "\<not> body_forbidden (rest_options ?o)"
    by (simp_all add: options_eval)
  show ?thesis
    using request_run_inst(1,3) [OF ok nf, of "\<lambda>i. Reply 10 200 60000 (JsonText (1::nat))" "new_Fetcher None" "''/x''"]
    by (simp add: options_eval)
qed

text \<open>
  C11. Every network call a request makes goes to \<open>BASE_URL\<close> followed by
  the client's suffix and the path, with credentials included and the
  caller's method and body unchanged.
\<close>

theorem request_sends_to_base_url:
  assumes "world_ok w" and "\<not> body_forbidden (rest_options options)"
  shows "\<forall>r \<in> set (drop (length (sent w)) (sent (snd (request net (new_Fetcher (Some s)) url options w)))).
     sent_url r = ''/api'' @ s @ url \<and> credentials (sent_init r) = Some ''include''
     \<and> http_method (sent_init r) = http_method options \<and> body (sent_init r) = body options"
  using request_run_inst(6) [OF assms, of net "new_Fetcher (Some s)" url]
  by (auto simp: new_Fetcher_def BASE_URL_def rest_options_def request_init.truncate_def)

theorem request_sends_to_base_url_witness:
  "list_all (\<lambda>r. sent_url r = ''/api/subscriptions/user'' \<and> credentials (sent_init r) = Some ''include'')
     (sent (snd (request (\<lambda>i. Reply 10 200 5 (JsonText (1::nat))) (new_Fetcher (Some ''/subscriptions'')) ''/user''
      (empty_options\<lparr>http_method := Some ''GET''\<rparr>) initial_world)))"
  using request_sends_to_base_url [of initial_world "empty_options\<lparr>http_method := Some ''GET''\<rparr>"
      "\<lambda>i. Reply 10 200 5 (JsonText (1::nat))" "''/subscriptions''" "''/user''"]
  by (simp add: options_eval list_all_iff)

text \<open>
  C12. Header merge. The init object the client builds has credentials
  \<open>include\<close>, the request's own timer as signal, and headers that are the JSON
  content type overridden by the caller's header record: reading a header
  \<open>k\<close>, when no other key among \<open>Content-Type\<close> and the caller's keys is a
  spelling of \<open>k\<close>, gives the caller's value if it set one and the default
  otherwise.
\<close>

theorem fetch_init_record_headers:
  assumes "headers fo = Some (HRecord hs)" and "obj_wf hs"
    and "\<forall>k' \<in> set (''Content-Type'' # obj_keys hs). lower_ascii k' = lower_ascii k \<longrightarrow> k' = k"
  shows "header_get (header_list (headers (fetch_init fo c))) k = (map_of default_headers ++ map_of hs) k
    \<and> credentials (fetch_init fo c) = Some ''include'' \<and> signal (fetch_init fo c) = Some c"
proof -
  let ?obj = "obj_spread default_headers hs"
  have wf: "obj_wf ?obj" by (intro obj_wf_obj_spread) (simp add: obj_wf_def obj_keys_def default_headers_def)
  have keys: "\<forall>k' \<in> set (obj_keys ?obj). lower_ascii k' = lower_ascii k \<longrightarrow> k' = k"
    using assms(3) unfolding obj_keys_obj_spread_set by (simp add: default_headers_def obj_keys_def)
  show ?thesis
    using header_get_record [OF wf keys] assms(1,2)
    by (simp add: fetch_init_def map_of_obj_spread_wf)
qed

theorem fetch_init_record_headers_witness:
  "header_get (header_list (headers (fetch_init (rest_options (empty_options\<lparr>headers := Some (HRecord [(''Content-Type'', ''text/plain'')])\<rparr>)) 0))) ''Content-Type''
     = Some ''text/plain''"
  using fetch_init_record_headers [of "rest_options (empty_options\<lparr>headers := Some (HRecord [(''Content-Type'', ''text/plain'')])\<rparr>)"
      "[(''Content-Type'', ''text/plain'')]" "''Content-Type''" 0]
  by (simp add: options_eval obj_wf_def obj_keys_def default_headers_def)

text \<open>
  C13. A caller who sets the content type in another spelling does not
  override it. If the caller's header record has exactly one property whose
  name is a spelling of \<open>content-type\<close>, and it is not spelled
  \<open>Content-Type\<close>, then every request of the call carries the two values
  joined: \<open>application/json, v\<close>.
\<close>

theorem lowercase_content_type_merged:
  assumes "world_ok w" and "\<not> body_forbidden (rest_options options)"
    and "headers options = Some (HRecord hs)"
    and "filter (\<lambda>p. lower_ascii (fst p) = ''content-type'') hs = [(k, v)]" and "k \<noteq> ''Content-Type''"
  shows "\<forall>r \<in> set (drop (length (sent w)) (sent (snd (request net f url options w)))).
     header_get (header_list (headers (sent_init r))) ''Content-Type'' = Some (''application/json, '' @ v)"
proof -
  have "header_get (header_list (headers (fetch_init (rest_options options) c))) ''Content-Type''
      = Some (''application/json, '' @ v)" for c
    using assms(3-5)
    by (simp add: header_get_fetch_init default_headers_filter rest_options_def request_init.truncate_def)
      (simp add: default_headers_def)
  then show ?thesis
    using request_run_inst(6) [OF assms(1,2), of net f url] by auto
qed

theorem lowercase_content_type_merged_witness:
  "list_all (\<lambda>r. header_get (header_list (headers (sent_init r))) ''Content-Type'' = Some ''application/json, text/plain'')
     (sent (snd (request (\<lambda>i. Reply 10 200 0 (JsonText (1::nat))) (new_Fetcher None) ''/x''
        (empty_options\<lparr>http_method := Some ''GET'', headers := Some (HRecord [(''content-type'', ''text/plain'')])\<rparr>)
        initial_world)))"
  using lowercase_content_type_merged [of initial_world
      "empty_options\<lparr>http_method := Some ''GET'', headers := Some (HRecord [(''content-type'', ''text/plain'')])\<rparr>"
      "[(''content-type'', ''text/plain'')]" "''content-type''" "''text/plain''"
      "\<lambda>i. Reply 10 200 0 (JsonText (1::nat))" "new_Fetcher None" "''/x''"]
  by (simp add: options_eval list_all_iff string_eval)

text \<open>
  C14. A \<open>Headers\<close> instance passed as the caller's headers is lost: it
  has no own enumerable properties, so whatever it holds, every request of
  the call carries the single header \<open>content-type: application/json\<close>.
\<close>

theorem non_record_headers_lost:
  assumes "world_ok w" and "\<not> body_forbidden (rest_options options)"
    and "headers options = Some (HInstance hs)"
  shows "\<forall>r \<in> set (drop (length (sent w)) (sent (snd (request net f url options w)))).
     header_list (headers (sent_init r)) = [(''content-type'', ''application/json'')]"
  using request_run_inst(6) [OF assms(1,2), of net f url] assms(3)
  by (auto simp: fetch_init_def rest_options_def request_init.truncate_def default_headers_def)

theorem non_record_headers_lost_witness:
  "list_all (\<lambda>r. header_list (headers (sent_init r)) = [(''content-type'', ''application/json'')])
     (sent (snd (request (\<lambda>i. Reply 10 200 0 (JsonText (1::nat))) (new_Fetcher None) ''/x''
        (empty_options\<lparr>http_method := Some ''GET'', headers := Some (HInstance [(''Authorization'', ''Bearer t'')])\<rparr>)
        initial_world)))"
  using non_record_headers_lost [of initial_world
      "empty_options\<lparr>http_method := Some ''GET'', headers := Some (HInstance [(''Authorization'', ''Bearer t'')])\<rparr>"
      "[(''Authorization'', ''Bearer t'')]" "\<lambda>i. Reply 10 200 0 (JsonText (1::nat))" "new_Fetcher None" "''/x''"]
  by (simp add: options_eval list_all_iff)

text \<open>
  C15. \<open>post\<close> sends a POST whose body is \<open>JSON.stringify\<close> of the payload
  and whose content type is JSON, on every attempt of the call, provided the
  caller's headers contain no property whose name is a spelling of
  \<open>content-type\<close> (with one, the caller's value is used or merged, C12 and
  C13).
\<close>

theorem post_sends_json_body:
  assumes "world_ok w"
    and "\<forall>k \<in> set (obj_keys (own_props (headers options))). lower_ascii k \<noteq> ''content-type''"
  shows "\<forall>r \<in> set (drop (length (sent w)) (sent (snd (post net f url bodyValue options w)))).
     fetch_method (sent_init r) = ''POST'' \<and> body (sent_init r) = stringify bodyValue
     \<and> header_get (header_list (headers (sent_init r))) ''Content-Type'' = Some ''application/json''"
proof -
  let ?o = "options\<lparr>http_method := Some ''POST'', body := stringify bodyValue\<rparr>"
  have nf: "\<not> body_forbidden (rest_options ?o)"
    by (simp add: body_forbidden_def fetch_method_def rest_options_def request_init.truncate_def)
  have none: "filter (\<lambda>p. lower_ascii (fst p) = ''content-type'') (own_props (headers options)) = []"
    using assms(2) by (auto simp: filter_empty_conv obj_keys_def)
  have ct: "header_get (header_list (headers (fetch_init (rest_options ?o) c))) ''Content-Type''
      = Some ''application/json''" for c
    using none
    by (simp add: header_get_fetch_init default_headers_filter rest_options_def request_init.truncate_def)
      (simp add: default_headers_def)
  show ?thesis
    using request_run_inst(6) [OF assms(1) nf, of net f url] ct
    by (auto simp: post_def fetch_method_def rest_options_def request_init.truncate_def)
qed

theorem post_sends_json_body_witness:
  \<open>list_all (\<lambda>r. fetch_method (sent_init r) = ''POST'' \<and> body (sent_init r) = Some ''{"name":"x"}''
       \<and> header_get (header_list (headers (sent_init r))) ''Content-Type'' = Some ''application/json'')
     (sent (snd (post (\<lambda>i. Reply 10 201 5 (JsonText (1::nat))) (new_Fetcher (Some ''/subscriptions'')) []
      (JObject [(''name'', JString ''x'')]) empty_options initial_world)))\<close>
  using post_sends_json_body [of initial_world empty_options "\<lambda>i. Reply 10 201 5 (JsonText (1::nat))"
      "new_Fetcher (Some ''/subscriptions'')" "[]" "JObject [(''name'', JString ''x'')]"]
  by (simp add: options_eval quote_json_def escape_char_def list_all_iff)

text \<open>
  C16. Scenario A of the specification: budget 1, delay 500 ms, a first
  attempt answered 500 and a second answered 200 with a JSON body. The call
  resolves with that body after two network calls; it settles at 700 ms,
  100 ms for each attempt and the retry delay between them.
\<close>

theorem scenario_retry_then_success:
  "let net = (\<lambda>i. if i = 0 then Reply 100 500 0 (JsonText 0) else Reply 100 200 0 (JsonText (1::nat)));
       r = request net (new_Fetcher (Some ''/subscriptions'')) ''/user''
             (empty_options\<lparr>http_method := Some ''GET'', retries := Some 1, retryDelay := Some 500\<rparr>) initial_world
   in fst r = Inr 1 \<and> length (sent (snd r)) = 2 \<and> now (snd r) = 700"
proof -
  let ?net = "\<lambda>i::nat. if i = 0 then Reply 100 500 0 (JsonText 0) else Reply 100 200 0 (JsonText (1::nat))"
  let ?o = "empty_options\<lparr>http_method := Some ''GET'', retries := Some 1, retryDelay := Some 500\<rparr>"
  have ok: "world_ok initial_world" and nf: "\<not> body_forbidden (rest_options ?o)"
    by (simp_all add: options_eval)
  show ?thesis
    using request_run_inst(1-3) [OF ok nf, of ?net "new_Fetcher (Some ''/subscriptions'')" "''/user''"]
    by (simp add: options_eval)
qed

text \<open>
  C17. Scenario B of the specification: with a budget of zero a network error
  rejects at once, after one network call and no delay, with a message that
  embeds the network error's message.
\<close>

theorem scenario_no_retry_network_error:
  "let r = request (\<lambda>i. NetworkFailure 30 ''network error'' :: nat attempt) (new_Fetcher None) ''/x''
             (empty_options\<lparr>http_method := Some ''DELETE'', retries := Some 0\<rparr>) initial_world
   in fst r = Inl (JsError ''Error'' ''Request failed after 1 retries: network error'')
      \<and> length (sent (snd r)) = 1 \<and> now (snd r) = 30"
proof -
  let ?o = "empty_options\<lparr>http_method := Some ''DELETE'', retries := Some 0\<rparr>"
  have ok: "world_ok initial_world" and nf: "\<not> body_forbidden (rest_options ?o)"
    by (simp_all add: options_eval)
  have msg: "final_error (JsError ''TypeError'' ''network error'') =
      JsError ''Error'' ''Request failed after 1 retries: network error''"
    by (simp add: final_error_def DEFAULT_RETRIES_def string_eval)
  show ?thesis
    using request_run_inst(1-3) [OF ok nf, of "\<lambda>i. NetworkFailure 30 ''network error'' :: nat attempt"
        "new_Fetcher None" "''/x''"]
    by (simp add: options_eval msg)
qed

text \<open>The status code of an HTTP failure can be read back from its message.\<close>

lemma http_error_status_roundtrip:
  "(case http_error st of JsError _ m \<Rightarrow> parse_nat (drop (length ''HTTP error! status: '') m) | NonError \<Rightarrow> None)
     = Some st"
  by (simp add: http_error_def)

text \<open>
  C37. Timing refinement. The time a call takes is the one the contract
  \<open>retry_time\<close> gives: each attempt lasts until its abort, its failure or
  the end of its body, and the retry delay separates consecutive attempts.
\<close>

theorem request_elapsed_time:
  assumes "world_ok w" and "\<not> body_forbidden (rest_options options)"
  shows "now (snd (request net f url options w)) =
    now w + retry_time (resolve_timeout options) (resolve_retry_delay options) net (length (sent w))
      (nat (resolve_retries options))"
  using request_run_inst(3) [OF assms] .

theorem request_elapsed_time_witness:
  "now (snd (request (\<lambda>i::nat. if i = 0 then NetworkFailure 40 ''Failed to fetch'' else Reply 100 200 20 (JsonText (1::nat)))
      (new_Fetcher None) ''/x'' (empty_options\<lparr>http_method := Some ''GET''\<rparr>) initial_world)) = 660"
  using request_elapsed_time [of initial_world "empty_options\<lparr>http_method := Some ''GET''\<rparr>"
      "\<lambda>i::nat. if i = 0 then NetworkFailure 40 ''Failed to fetch'' else Reply 100 200 20 (JsonText (1::nat))"
      "new_Fetcher None" "''/x''"]
  by (simp add: options_eval status_ok_def)

text \<open>
  C38. Bounded latency of failing calls. When no attempt can succeed, a call
  settles within \<open>(budget + 1) * timeout + budget * retryDelay\<close>
  milliseconds, however slow the network.
\<close>

theorem request_failure_latency_bound:
  assumes "world_ok w" and "\<not> body_forbidden (rest_options options)"
    and "\<forall>j. \<exists>e. classify (resolve_timeout options) (net j) = Failure e"
  shows "now (snd (request net f url options w)) \<le>
    now w + Suc (nat (resolve_retries options)) * resolve_timeout options
      + nat (resolve_retries options) * resolve_retry_delay options"
  using request_run_inst(3) [OF assms(1,2), of net f url]
    retry_time_failure_bound [OF assms(3), of "resolve_retry_delay options" "length (sent w)" "nat (resolve_retries options)"]
  by simp

theorem request_failure_latency_bound_witness:
  "now (snd (request (\<lambda>i. Reply 99999 200 0 (JsonText (1::nat))) (new_Fetcher None) ''/x''
      (empty_options\<lparr>http_method := Some ''GET''\<rparr>) initial_world)) \<le> 20500"
  using request_failure_latency_bound [of initial_world "empty_options\<lparr>http_method := Some ''GET''\<rparr>"
      "\<lambda>i. Reply 99999 200 0 (JsonText (1::nat))" "new_Fetcher None" "''/x''"]
  by (simp add: options_eval)


text \<open>
  C39. Blind retry of mutations. A \<open>post\<close> whose first attempt is answered
  503 is sent again with the same method and body, and the call resolves with
  the second answer: the non-idempotent request reaches the server twice.
\<close>

theorem post_retried_blindly:
  \<open>let net = (\<lambda>i::nat. if i = 0 then Reply 50 503 0 (JsonText 0) else Reply 50 201 0 (JsonText (1::nat)));
       r = post net (new_Fetcher (Some ''/subscriptions'')) [] (JObject [(''name'', JString ''x'')])
             empty_options initial_world
   in fst r = Inr 1 \<and> length (sent (snd r)) = 2
      \<and> list_all (\<lambda>q. fetch_method (sent_init q) = ''POST'' \<and> body (sent_init q) = Some ''{"name":"x"}'')
          (sent (snd r))\<close>
proof -
  let ?net = "\<lambda>i::nat. if i = 0 then Reply 50 503 0 (JsonText 0) else Reply 50 201 0 (JsonText (1::nat))"
  let ?f = "new_Fetcher (Some ''/subscriptions'')"
  define b where \<open>b = ''{"name":"x"}''\<close>
  let ?o = "empty_options\<lparr>http_method := Some ''POST'', body := Some b\<rparr>"
  have js: "stringify (JObject [(''name'', JString ''x'')]) = Some b"
    by (simp add: b_def quote_json_def escape_char_def)
  have eq: "post ?net ?f [] (JObject [(''name'', JString ''x'')]) empty_options initial_world
      = request ?net ?f [] ?o initial_world"
    by (simp only: post_def js)
  have ok: "world_ok initial_world" and nf: "\<not> body_forbidden (rest_options ?o)"
    by (simp_all add: options_eval)
  have "fst (request ?net ?f [] ?o initial_world) = Inr 1
      \<and> length (sent (snd (request ?net ?f [] ?o initial_world))) = 2"
    using request_run_inst(1,2) [OF ok nf, of ?net ?f "[]"]
    by (simp add: options_eval status_ok_def http_error_def)
  moreover have "\<forall>q \<in> set (sent (snd (request ?net ?f [] ?o initial_world))).
      fetch_method (sent_init q) = ''POST'' \<and> body (sent_init q) = Some b"
    using request_run_inst(6) [OF ok nf, of ?net ?f "[]"]
    by (auto simp: fetch_init_def fetch_method_def rest_options_def request_init.truncate_def empty_options_def)
  ultimately show ?thesis by (simp add: eq b_def [symmetric] Let_def list_all_iff)
qed

text \<open>
  C18. Termination. Every call of \<open>request\<close> terminates: each input lies in
  the domain of the recursion (proved by induction on the retry budget with
  the domain introduction rule of the recursive call), and no chain of
  recursive calls below it is longer than the retry budget.
\<close>

theorem request_terminates:
  "request_dom (net, f, url, options, w)
   \<and> (\<forall>y. \<not> (request_rel ^^ Suc (nat (resolve_retries options))) y (net, f, url, options, w))"
proof
  show "request_dom (net, f, url, options, w)"
  proof (induction "nat (resolve_retries options)" arbitrary: options w rule: less_induct)
    case less
    show ?case
    proof (rule request.domintros)
      fix tid w1 out w2 e
      assume "0 < resolve_retries options"
      then have "nat (resolve_retries (options\<lparr>retries := Some (resolve_retries options - 1)\<rparr>))
          < nat (resolve_retries options)"
        by (simp add: resolve_retries_def)
      then show "request_dom (net, f, url, options\<lparr>retries := Some (resolve_retries options - 1)\<rparr>,
          sleep (resolve_retry_delay options) (clear_timeout tid w2))"
        by (rule less)
    qed
  qed
  show "\<forall>y. \<not> (request_rel ^^ Suc (nat (resolve_retries options))) y (net, f, url, options, w)"
    using request_rel_depth [of "Suc (nat (resolve_retries options))"] by fastforce
qed

text \<open>
  C34. Type of the header object. Whatever headers the caller passes, every
  request the client sends carries a plain header object with distinct keys
  that contains \<open>Content-Type\<close>.
\<close>

theorem request_headers_well_formed:
  assumes "world_ok w" and "\<not> body_forbidden (rest_options options)"
  shows "\<forall>r \<in> set (drop (length (sent w)) (sent (snd (request net f url options w)))).
     \<exists>obj. headers (sent_init r) = Some (HRecord obj) \<and> obj_wf obj \<and> ''Content-Type'' \<in> set (obj_keys obj)"
proof -
  have "obj_wf default_headers" and "''Content-Type'' \<in> set (obj_keys default_headers)"
    by (simp_all add: default_headers_def obj_wf_def)
  then have "obj_wf (obj_spread default_headers src) \<and> ''Content-Type'' \<in> set (obj_keys (obj_spread default_headers src))"
    for src by (simp add: obj_keys_obj_spread_set)
  then show ?thesis
    using request_run_inst(6) [OF assms, of net f url] by (fastforce simp: fetch_init_def)
qed

theorem request_headers_well_formed_witness:
  "list_all (\<lambda>r. \<exists>obj. headers (sent_init r) = Some (HRecord obj) \<and> obj_wf obj \<and> ''Content-Type'' \<in> set (obj_keys obj))
     (sent (snd (request (\<lambda>i. Reply 10 200 0 (JsonText (1::nat))) (new_Fetcher None) ''/x''
        (empty_options\<lparr>http_method := Some ''GET'', headers := Some (HPairs [(''a'', ''1''), (''a'', ''2'')])\<rparr>) initial_world)))"
  using request_headers_well_formed [of initial_world
      "empty_options\<lparr>http_method := Some ''GET'', headers := Some (HPairs [(''a'', ''1''), (''a'', ''2'')])\<rparr>"
      "\<lambda>i. Reply 10 200 0 (JsonText (1::nat))" "new_Fetcher None" "''/x''"]
  by (simp add: options_eval list_all_iff)

text \<open>
  C40. Equivalence with the declarative reference. The recursive retry loop
  settles exactly at the first attempt whose verdict is not a failure, within
  the budget, or at the last attempt allowed: the call's value is that
  attempt's value and the number of requests is its position plus one.
\<close>

theorem request_settles_first:
  assumes "world_ok w" and "\<not> body_forbidden (rest_options options)"
  shows "fst (request net f url options w) =
      verdict_value (classify (resolve_timeout options) (net (length (sent w)
        + settle_index (\<lambda>j. classify (resolve_timeout options) (net j)) (length (sent w)) (nat (resolve_retries options)))))
    \<and> length (sent (snd (request net f url options w))) = length (sent w)
        + Suc (settle_index (\<lambda>j. classify (resolve_timeout options) (net j)) (length (sent w)) (nat (resolve_retries options)))"
  using request_run_inst(1,2) [OF assms, of net f url]
    retry_spec_settle [of "\<lambda>j. classify (resolve_timeout options) (net j)" "length (sent w)" "nat (resolve_retries options)"]
  by simp

theorem request_settles_first_witness:
  "fst (request (\<lambda>i::nat. if i < 2 then NetworkFailure 10 ''Failed to fetch'' else Reply 10 200 0 (JsonText (5::nat)))
      (new_Fetcher None) ''/x'' (empty_options\<lparr>http_method := Some ''GET'', retries := Some 3\<rparr>) initial_world) = Inr 5
   \<and> length (sent (snd (request (\<lambda>i::nat. if i < 2 then NetworkFailure 10 ''Failed to fetch'' else Reply 10 200 0 (JsonText (5::nat)))
      (new_Fetcher None) ''/x'' (empty_options\<lparr>http_method := Some ''GET'', retries := Some 3\<rparr>) initial_world))) = 3"
  using request_settles_first [of initial_world "empty_options\<lparr>http_method := Some ''GET'', retries := Some 3\<rparr>"
      "\<lambda>i::nat. if i < 2 then NetworkFailure 10 ''Failed to fetch'' else Reply 10 200 0 (JsonText (5::nat))"
      "new_Fetcher None" "''/x''"]
  by (simp add: options_eval settle_index_def is_failure_def verdict_value_def status_ok_def upt_rec)

end
