(* ===== verification/Url.thy ===== *)
theory Url
  imports Prelude
begin

text \<open>
  \<open>URLSearchParams\<close> of the WHATWG URL standard, the platform code the server
  actions use to build query strings: the serializer
  (\<open>application/x-www-form-urlencoded\<close>: a space becomes \<open>+\<close>, letters,
  digits and \<open>*-._\<close> stay, every other byte becomes \<open>%XY\<close>) and the parser
  (split at \<open>&\<close>, then at the first \<open>=\<close>, then percent-decode). Strings are
  byte strings, that is UTF-8 already encoded.
\<close>

definition hex_upper :: "nat \<Rightarrow> char" where
  "hex_upper n = (if n < 10 then char_of (48 + n) else char_of (55 + n))"

definition is_hex :: "char \<Rightarrow> bool" where
  "is_hex c \<longleftrightarrow>
     (let n = of_char c :: nat in (48 \<le> n \<and> n \<le> 57) \<or> (65 \<le> n \<and> n \<le> 70) \<or> (97 \<le> n \<and> n \<le> 102))"

definition hex_value :: "char \<Rightarrow> nat" where
  "hex_value c =
     (let n = of_char c :: nat in if n \<le> 57 then n - 48 else if n \<le> 70 then n - 55 else n - 87)"

text \<open>The bytes the serializer leaves alone: ASCII alphanumerics and \<open>*-._\<close>.\<close>

definition form_safe :: "char \<Rightarrow> bool" where
  "form_safe c \<longleftrightarrow>
     (let n = of_char c :: nat in
      (48 \<le> n \<and> n \<le> 57) \<or> (65 \<le> n \<and> n \<le> 90) \<or> (97 \<le> n \<and> n \<le> 122) \<or> n \<in> {42, 45, 46, 95})"

definition form_encode_char :: "char \<Rightarrow> string" where
  "form_encode_char c =
     (if c = CHR '' '' then ''+''
      else if form_safe c then [c]
      else [CHR ''%'', hex_upper (of_char c div 16), hex_upper (of_char c mod 16)])"

definition form_encode :: "string \<Rightarrow> string" where
  "form_encode s = concat (map form_encode_char s)"

text \<open>\<open>URLSearchParams.prototype.toString\<close>.\<close>

definition search_params_string :: "(string \<times> string) list \<Rightarrow> string" where
  "search_params_string ps = join_with ''&'' (map (\<lambda>(k, v). form_encode k @ ''='' @ form_encode v) ps)"

fun percent_decode :: "string \<Rightarrow> string" where
  "percent_decode [] = []"
| "percent_decode (c # cs) =
     (if c = CHR ''+'' then CHR '' '' # percent_decode cs
      else if c = CHR ''%'' then
        (case cs of
           h1 # h2 # rest \<Rightarrow>
             if is_hex h1 \<and> is_hex h2
             then char_of (16 * hex_value h1 + hex_value h2) # percent_decode rest
             else c # percent_decode cs
         | _ \<Rightarrow> c # percent_decode cs)
      else c # percent_decode cs)"

fun split_on :: "char \<Rightarrow> string \<Rightarrow> string list" where
  "split_on c [] = [[]]"
| "split_on c (x # xs) =
     (if x = c then [] # split_on c xs
      else (case split_on c xs of s # ss \<Rightarrow> (x # s) # ss | [] \<Rightarrow> [[x]]))"

definition parse_pair :: "string \<Rightarrow> string \<times> string" where
  "parse_pair seg =
     (if CHR ''='' \<in> set seg
      then (percent_decode (takeWhile (\<lambda>x. x \<noteq> CHR ''='') seg),
            percent_decode (tl (dropWhile (\<lambda>x. x \<noteq> CHR ''='') seg)))
      else (percent_decode seg, []))"

text \<open>\<open>new URLSearchParams(query)\<close>: empty sequences are skipped.\<close>

definition parse_search_params :: "string \<Rightarrow> (string \<times> string) list" where
  "parse_search_params q = map parse_pair (filter (\<lambda>s. s \<noteq> []) (split_on CHR ''&'' q))"

section \<open>Decoding an encoded string gives it back\<close>

lemma of_char_hex_upper:
  "n < 16 \<Longrightarrow> (of_char (hex_upper n) :: nat) = (if n < 10 then 48 + n else 55 + n)"
  by (simp add: hex_upper_def)

lemma hex_upper_digits:
  "n < 16 \<Longrightarrow> is_hex (hex_upper n) \<and> hex_value (hex_upper n) = n"
  by (simp add: is_hex_def hex_value_def of_char_hex_upper Let_def)

lemma form_safe_not_special:
  "form_safe c \<Longrightarrow> c \<noteq> CHR ''+'' \<and> c \<noteq> CHR ''%'' \<and> CHR ''&'' \<noteq> c \<and> CHR ''='' \<noteq> c"
  by (auto simp: form_safe_def Let_def)

lemma percent_decode_encode_char:
  "percent_decode (form_encode_char c @ s) = c # percent_decode s"
proof -
  have lo: "of_char c div 16 < (16::nat)" and hi: "of_char c mod 16 < (16::nat)"
    using of_char_mod_256 [of c] by (simp_all add: less_mult_imp_div_less)
  show ?thesis
  proof (cases "c = CHR '' '' \<or> form_safe c")
    case True
    then show ?thesis using form_safe_not_special [of c]
      by (auto simp: form_encode_char_def)
  next
    case False
    have "16 * (of_char c div 16) + of_char c mod 16 = (of_char c :: nat)" by simp
    with False show ?thesis using hex_upper_digits [OF lo] hex_upper_digits [OF hi]
      by (simp add: form_encode_char_def)
  qed
qed

lemma percent_decode_form_encode [simp]: "percent_decode (form_encode s) = s"
proof (induction s)
  case Nil
  then show ?case by (simp add: form_encode_def)
next
  case (Cons c s)
  then show ?case
    using percent_decode_encode_char [of c "form_encode s"] by (simp add: form_encode_def)
qed

lemma hex_upper_not_special:
  assumes "n < 16"
  shows "CHR ''&'' \<noteq> hex_upper n \<and> CHR ''='' \<noteq> hex_upper n"
proof -
  have "(of_char (hex_upper n) :: nat) \<noteq> of_char (CHR ''&'')"
    and "(of_char (hex_upper n) :: nat) \<noteq> of_char (CHR ''='')"
    using of_char_hex_upper [OF assms] by auto
  then show ?thesis by metis
qed

lemma form_encode_char_no_special:
  "CHR ''&'' \<notin> set (form_encode_char c) \<and> CHR ''='' \<notin> set (form_encode_char c)"
proof -
  have lo: "of_char c div 16 < (16::nat)" and hi: "of_char c mod 16 < (16::nat)"
    using of_char_mod_256 [of c] by (simp_all add: less_mult_imp_div_less)
  show ?thesis
    using form_safe_not_special [of c] hex_upper_not_special [OF lo] hex_upper_not_special [OF hi]
    by (simp add: form_encode_char_def)
qed

lemma form_encode_no_special:
  "CHR ''&'' \<notin> set (form_encode s) \<and> CHR ''='' \<notin> set (form_encode s)"
  using form_encode_char_no_special by (auto simp: form_encode_def)


section \<open>Parsing a serialized parameter list gives it back\<close>

lemma split_on_no_sep: "c \<notin> set s \<Longrightarrow> split_on c s = [s]"
  by (induction s) auto

lemma split_on_append: "c \<notin> set s \<Longrightarrow> split_on c (s @ c # t) = s # split_on c t"
proof (induction s)
  case Nil
  then show ?case by simp
next
  case (Cons x s)
  then show ?case by auto
qed

lemma split_on_join:
  "ss \<noteq> [] \<Longrightarrow> \<forall>s \<in> set ss. c \<notin> set s \<Longrightarrow> split_on c (join_with [c] ss) = ss"
proof (induction ss)
  case Nil
  then show ?case by simp
next
  case (Cons x ss)
  show ?case
  proof (cases ss)
    case Nil
    with Cons.prems show ?thesis by (simp add: split_on_no_sep)
  next
    case (Cons y zs)
    with Cons.prems Cons.IH show ?thesis by (simp add: split_on_append)
  qed
qed

lemma parse_pair_encoded: "parse_pair (form_encode k @ CHR ''='' # form_encode v) = (k, v)"
proof -
  have no_eq: "\<forall>x \<in> set (form_encode k). x \<noteq> CHR ''=''"
    using form_encode_no_special [of k] by auto
  have "takeWhile (\<lambda>x. x \<noteq> CHR ''='') (form_encode k @ CHR ''='' # form_encode v) = form_encode k"
    using no_eq by simp
  moreover have "dropWhile (\<lambda>x. x \<noteq> CHR ''='') (form_encode k @ CHR ''='' # form_encode v) = CHR ''='' # form_encode v"
    using no_eq by simp
  ultimately show ?thesis by (simp add: parse_pair_def)
qed

text \<open>Serializing a parameter list and parsing it back gives the list.\<close>

lemma parse_search_params_string [simp]:
  "parse_search_params (search_params_string ps) = ps"
proof (cases "ps = []")
  case True
  then show ?thesis by (simp add: parse_search_params_def search_params_string_def)
next
  case False
  let ?segs = "map (\<lambda>(k, v). form_encode k @ ''='' @ form_encode v) ps"
  have sep: "\<forall>s \<in> set ?segs. CHR ''&'' \<notin> set s"
    using form_encode_no_special by auto
  have "split_on CHR ''&'' (join_with ''&'' ?segs) = ?segs"
    using split_on_join [of ?segs "CHR ''&''"] False sep by simp
  moreover have "filter (\<lambda>s. s \<noteq> []) ?segs = ?segs" by (auto simp: filter_id_conv)
  ultimately show ?thesis
    by (simp add: parse_search_params_def search_params_string_def comp_def case_prod_beta parse_pair_encoded)
qed

end
