(* ===== verification/SubscriptionAPI.thy ===== *)
theory SubscriptionAPI
  imports Runtime Url
begin

text \<open>
  The server actions of \<open>src/src/apis/subscriptionAPI.ts\<close>: \<open>searchService\<close>
  (search of the known services by name) and \<open>getItems\<close> (one page of the
  user's subscriptions, authenticated by the \<open>SESSION\<close> cookie). Both call the
  platform \<open>fetch\<close> of \<open>Runtime\<close> directly, without the retrying client, and
  build their query strings with \<open>URLSearchParams\<close> of \<open>Url\<close>. \<open>BASE_URL\<close>
  (module \<open>#constants/url\<close>, outside the sources) is a parameter \<open>base\<close>; the
  cookies of the incoming request are a map from cookie names to values.
\<close>

section \<open>Messages\<close>

text \<open>The Korean messages of the thrown errors, as their UTF-8 bytes.\<close>

definition msg_search_failed :: string where
  "msg_search_failed = map char_of [0xEA, 0xB2, 0x80, 0xEC, 0x83, 0x89, 0x20, 0xEC, 0x9A, 0x94,
     0xEC, 0xB2, 0xAD, 0x20, 0xEC, 0x8B, 0xA4, 0xED, 0x8C, 0xA8::nat]"

definition msg_no_session :: string where
  "msg_no_session = map char_of [0xEC, 0x84, 0xB8, 0xEC, 0x85, 0x98, 0xEC, 0x9D, 0xB4, 0x20,
     0xEC, 0xA1, 0xB4, 0xEC, 0x9E, 0xAC, 0xED, 0x95, 0x98, 0xEC, 0xA7, 0x80, 0x20, 0xEC, 0x95,
     0x8A, 0xEC, 0x8A, 0xB5, 0xEB, 0x8B, 0x88, 0xEB, 0x8B, 0xA4, 0x2E, 0x20, 0xEB, 0xA1, 0x9C,
     0xEA, 0xB7, 0xB8, 0xEC, 0x9D, 0xB8, 0x20, 0xED, 0x9B, 0x84, 0x20, 0xEB, 0x8B, 0xA4, 0xEC,
     0x8B, 0x9C, 0x20, 0xEC, 0x8B, 0x9C, 0xEB, 0x8F, 0x84, 0xED, 0x95, 0xB4, 0xEC, 0xA3, 0xBC,
     0xEC, 0x84, 0xB8, 0xEC, 0x9A, 0x94, 0x2E::nat]"

definition msg_session_expired :: string where
  "msg_session_expired = map char_of [0xEB, 0xA1, 0x9C, 0xEA, 0xB7, 0xB8, 0xEC, 0x9D, 0xB8,
     0x20, 0xEC, 0x84, 0xB8, 0xEC, 0x85, 0x98, 0xEC, 0x9D, 0xB4, 0x20, 0xEB, 0xA7, 0x8C, 0xEB,
     0xA3, 0x8C, 0xEB, 0x90, 0x98, 0xEC, 0x97, 0x88, 0xEC, 0x8A, 0xB5, 0xEB, 0x8B, 0x88, 0xEB,
     0x8B, 0xA4, 0x2E, 0x20, 0xEB, 0x8B, 0xA4, 0xEC, 0x8B, 0x9C, 0x20, 0xEB, 0xA1, 0x9C, 0xEA,
     0xB7, 0xB8, 0xEC, 0x9D, 0xB8, 0xED, 0x95, 0xB4, 0xEC, 0xA3, 0xBC, 0xEC, 0x84, 0xB8, 0xEC,
     0x9A, 0x94, 0x2E::nat]"

definition msg_load_failed :: string where
  "msg_load_failed = map char_of [0xEA, 0xB5, 0xAC, 0xEB, 0x8F, 0x85, 0x20, 0xED, 0x95, 0xAD,
     0xEB, 0xAA, 0xA9, 0x20, 0xEB, 0xB6, 0x88, 0xEB, 0x9F, 0xAC, 0xEC, 0x98, 0xA4, 0xEA, 0xB8,
     0xB0, 0x20, 0xEC, 0x8B, 0xA4, 0xED, 0x8C, 0xA8::nat]"

section \<open>searchService\<close>

definition search_url :: "string \<Rightarrow> string \<Rightarrow> string" where
  "search_url base name = base @ ''/api/subscriptions?'' @ search_params_string [(''name'', name)]"

definition search_init :: request_init where
  "search_init =
     \<lparr>http_method = Some ''GET'', body = None,
      headers = Some (HRecord [(''Content-Type'', ''application/json''), (''Accept'', ''application/json'')]),
      credentials = Some ''include'', cache = None, signal = None\<rparr>"

text \<open>
  A rejection of \<open>fetch\<close> propagates; a status outside 200--299 throws; the
  body of a successful response is parsed (\<open>return res.json()\<close>).
\<close>

definition searchService :: "string \<Rightarrow> 'v network \<Rightarrow> string \<Rightarrow> world \<Rightarrow> (js_error + 'v) \<times> world" where
  "searchService base net name w =
     (let (r, w1) = fetch net (search_url base name) search_init w
      in case r of
           Inl e \<Rightarrow> (Inl e, w1)
         | Inr res \<Rightarrow>
             if \<not> response_ok res then (Inl (JsError ''Error'' msg_search_failed), w1)
             else response_json res w1)"

section \<open>getItems\<close>

text \<open>
  \<open>PageRequest\<close> of \<open>#types/notification\<close>; its field \<open>size\<close> is called
  \<open>page_size\<close> here (\<open>size\<close> is a constant of HOL).
\<close>

record page_request =
  lastId :: int
  page_size :: int

type_synonym cookie_jar = "string \<Rightarrow> string option"

definition items_query :: "page_request \<Rightarrow> (string \<times> string) list" where
  "items_query pageRequest =
     [(''lastId'', int_string (lastId pageRequest)), (''size'', int_string (page_size pageRequest))]"

definition items_url :: "string \<Rightarrow> page_request \<Rightarrow> string" where
  "items_url base pageRequest =
     base @ ''/api/subscriptions/user?'' @ search_params_string (items_query pageRequest)"

definition items_init :: "string \<Rightarrow> request_init" where
  "items_init session =
     \<lparr>http_method = Some ''GET'', body = None,
      headers = Some (HRecord [(''Content-Type'', ''application/json''), (''cookie'', ''SESSION='' @ session)]),
      credentials = Some ''include'', cache = Some ''no-cache'', signal = None\<rparr>"

text \<open>
  Without a \<open>SESSION\<close> cookie the action throws before any request. Otherwise
  it prints the cookie's value on the server console, sends the request, and
  maps 401 and the other failing statuses to two different errors.
\<close>

definition getItems ::
  "string \<Rightarrow> cookie_jar \<Rightarrow> 'v network \<Rightarrow> page_request \<Rightarrow> world \<Rightarrow> (js_error + 'v) \<times> world" where
  "getItems base cookies net pageRequest w =
     (case cookies ''SESSION'' of
        None \<Rightarrow> (Inl (JsError ''Error'' msg_no_session), w)
      | Some session \<Rightarrow>
          (let w1 = console_log session w;
              (r, w2) = fetch net (items_url base pageRequest) (items_init session) w1
          in case r of
               Inl e \<Rightarrow> (Inl e, w2)
             | Inr res \<Rightarrow>
                 if \<not> response_ok res \<and> status res = 401
                 then (Inl (JsError ''Error'' msg_session_expired), w2)
                 else if \<not> response_ok res then (Inl (JsError ''Error'' msg_load_failed), w2)
                 else response_json res w2))"

section \<open>Lemmas: one request, decided by one attempt\<close>

lemma search_init_simps [simp]:
  "\<not> body_forbidden search_init" "signal search_init = None"
  by (simp_all add: search_init_def body_forbidden_def fetch_method_def)

lemma items_init_simps [simp]:
  "\<not> body_forbidden (items_init s)" "signal (items_init s) = None"
  by (simp_all add: items_init_def body_forbidden_def fetch_method_def)

lemma searchService_unfold:
  "searchService base net name w =
     (let a = net (length (sent w));
          w1 = advance_to (now w + attempt_latency a) (fetch_log (search_url base name) search_init w)
      in case a of
           NetworkFailure _ msg \<Rightarrow> (Inl (JsError ''TypeError'' msg), w1)
         | Reply _ st blat p \<Rightarrow>
             if \<not> status_ok st then (Inl (JsError ''Error'' msg_search_failed), w1)
             else response_json \<lparr>status = st, body_delay = blat, payload = p, resp_signal = None\<rparr> w1)"
  by (cases "net (length (sent w))") (simp_all add: searchService_def fetch_no_signal response_ok_def Let_def)

lemma getItems_unfold:
  assumes "cookies ''SESSION'' = Some s"
  shows "getItems base cookies net pageRequest w =
     (let a = net (length (sent w));
          w2 = advance_to (now w + attempt_latency a)
                 (fetch_log (items_url base pageRequest) (items_init s) (console_log s w))
      in case a of
           NetworkFailure _ msg \<Rightarrow> (Inl (JsError ''TypeError'' msg), w2)
         | Reply _ st blat p \<Rightarrow>
             if st = 401 then (Inl (JsError ''Error'' msg_session_expired), w2)
             else if \<not> status_ok st then (Inl (JsError ''Error'' msg_load_failed), w2)
             else response_json \<lparr>status = st, body_delay = blat, payload = p, resp_signal = None\<rparr> w2)"
  using assms by (cases "net (length (sent w))")
    (simp_all add: getItems_def fetch_no_signal response_ok_def status_ok_def console_log_def Let_def)

section \<open>Properties of searchService\<close>

text \<open>
  C19. \<open>searchService\<close> sends exactly one request and its outcome is decided by
  that attempt alone: a network failure rejects with the \<open>TypeError\<close>, a
  status outside 200--299 throws the search error, and a successful response
  yields its parsed body or the \<open>SyntaxError\<close> of a malformed one. There is no
  timeout and no retry.
\<close>

theorem searchService_result:
  "fst (searchService base net name w) =
     (case net (length (sent w)) of
        NetworkFailure _ msg \<Rightarrow> Inl (JsError ''TypeError'' msg)
      | Reply _ st _ p \<Rightarrow>
          if status_ok st
          then (case p of JsonText v \<Rightarrow> Inr v | MalformedJson m \<Rightarrow> Inl (JsError ''SyntaxError'' m))
          else Inl (JsError ''Error'' msg_search_failed))"
  by (simp add: searchService_unfold Let_def split: attempt.split payload.split)

text \<open>
  C20. The search term cannot inject query parameters: for every name, the
  request goes to \<open>BASE_URL/api/subscriptions?q\<close> where \<open>q\<close> parses back to the
  single parameter \<open>name\<close> with exactly that value, whatever \<open>&\<close>, \<open>=\<close>, \<open>+\<close>,
  \<open>%\<close> or spaces it contains.
\<close>

theorem search_query_roundtrip:
  "\<exists>q. sent (snd (searchService base net name w)) =
         sent w @ [\<lparr>sent_url = base @ ''/api/subscriptions?'' @ q, sent_init = search_init, sent_at = now w\<rparr>]
     \<and> parse_search_params q = [(''name'', name)]"
  by (rule exI [of _ "search_params_string [(''name'', name)]"])
    (simp add: searchService_unfold Let_def search_url_def split: attempt.split)

section \<open>Properties of getItems\<close>

text \<open>
  C21. Without a \<open>SESSION\<close> cookie, \<open>getItems\<close> throws the missing-session
  error and leaves the world unchanged: no request is sent and nothing is
  logged.
\<close>

theorem getItems_no_session:
  "cookies ''SESSION'' = None \<Longrightarrow>
   getItems base cookies net pageRequest w = (Inl (JsError ''Error'' msg_no_session), w)"
  by (simp add: getItems_def)

theorem getItems_no_session_witness:
  "getItems ''/b'' Map.empty (\<lambda>i::nat. Reply 1 200 0 (JsonText (7::nat))) \<lparr>lastId = 0, page_size = 10\<rparr>
     initial_world = (Inl (JsError ''Error'' msg_no_session), initial_world)"
  using getItems_no_session [of Map.empty "''/b''" "\<lambda>i::nat. Reply 1 200 0 (JsonText (7::nat))"
      "\<lparr>lastId = 0, page_size = 10\<rparr>" initial_world]
  by simp

text \<open>
  C22. With a session, \<open>getItems\<close> sends one request, and its outcome is
  decided by that attempt: a network failure rejects with the \<open>TypeError\<close>,
  status 401 throws the session-expired error, any other status outside
  200--299 throws the load error, and a successful response yields its parsed
  body or a \<open>SyntaxError\<close>.
\<close>

theorem getItems_result:
  assumes "cookies ''SESSION'' = Some s"
  shows "fst (getItems base cookies net pageRequest w) =
     (case net (length (sent w)) of
        NetworkFailure _ msg \<Rightarrow> Inl (JsError ''TypeError'' msg)
      | Reply _ st _ p \<Rightarrow>
          if status_ok st
          then (case p of JsonText v \<Rightarrow> Inr v | MalformedJson m \<Rightarrow> Inl (JsError ''SyntaxError'' m))
          else if st = 401 then Inl (JsError ''Error'' msg_session_expired)
          else Inl (JsError ''Error'' msg_load_failed))"
  by (simp add: getItems_unfold [where cookies = cookies, OF assms] Let_def status_ok_def
      split: attempt.split payload.split)

theorem getItems_result_witness:
  "[''SESSION'' \<mapsto> ''abc''] ''SESSION'' = Some ''abc'' \<and>
   fst (getItems ''/b'' [''SESSION'' \<mapsto> ''abc''] (\<lambda>i::nat. Reply 10 401 0 (JsonText (7::nat)))
      \<lparr>lastId = 0, page_size = 10\<rparr> initial_world) = Inl (JsError ''Error'' msg_session_expired)"
  using getItems_result [of "[''SESSION'' \<mapsto> ''abc'']" "''abc''" "''/b''"
      "\<lambda>i::nat. Reply 10 401 0 (JsonText (7::nat))" "\<lparr>lastId = 0, page_size = 10\<rparr>" initial_world]
  by (simp add: status_ok_def)

text \<open>
  C23. With a session, \<open>getItems\<close> prints the value of the \<open>SESSION\<close> cookie,
  the user's credential, on the server console (subscriptionAPI.ts line 77),
  whatever the request then does.
\<close>

theorem getItems_logs_session:
  assumes "cookies ''SESSION'' = Some s"
  shows "console (snd (getItems base cookies net pageRequest w)) = console w @ [s]"
  by (simp add: getItems_unfold [where cookies = cookies, OF assms] Let_def console_log_def
      split: attempt.split)

theorem getItems_logs_session_witness:
  "[''SESSION'' \<mapsto> ''abc''] ''SESSION'' = Some ''abc'' \<and>
   console (snd (getItems ''/b'' [''SESSION'' \<mapsto> ''abc''] (\<lambda>i::nat. Reply 10 200 0 (JsonText (7::nat)))
      \<lparr>lastId = 0, page_size = 10\<rparr> initial_world)) = [''abc'']"
  using getItems_logs_session [of "[''SESSION'' \<mapsto> ''abc'']" "''abc''" "''/b''"
      "\<lambda>i::nat. Reply 10 200 0 (JsonText (7::nat))" "\<lparr>lastId = 0, page_size = 10\<rparr>" initial_world]
  by simp

text \<open>
  C24. With a session, the one request \<open>getItems\<close> sends goes to
  \<open>BASE_URL/api/subscriptions/user?q\<close> where \<open>q\<close> parses back to exactly the
  parameters \<open>lastId\<close> and \<open>size\<close> printed as numbers; it carries the session
  as the \<open>Cookie\<close> header \<open>SESSION=value\<close> and bypasses the cache.
\<close>

theorem getItems_request:
  assumes "cookies ''SESSION'' = Some s"
  shows "\<exists>q. sent (snd (getItems base cookies net pageRequest w)) =
         sent w @ [\<lparr>sent_url = base @ ''/api/subscriptions/user?'' @ q, sent_init = items_init s, sent_at = now w\<rparr>]
     \<and> parse_search_params q =
         [(''lastId'', int_string (lastId pageRequest)), (''size'', int_string (page_size pageRequest))]
     \<and> header_get (header_list (headers (items_init s))) ''Cookie'' = Some (''SESSION='' @ s)
     \<and> cache (items_init s) = Some ''no-cache''"
  apply (rule exI [of _ "search_params_string (items_query pageRequest)"])
  apply (simp add: getItems_unfold [where cookies = cookies, OF assms] Let_def items_url_def
      console_log_def split: attempt.split)
  apply (simp add: items_query_def items_init_def header_get_def string_eval)
  done

theorem getItems_request_witness:
  "[''SESSION'' \<mapsto> ''abc''] ''SESSION'' = Some ''abc'' \<and>
   (\<exists>q. sent (snd (getItems ''/b'' [''SESSION'' \<mapsto> ''abc''] (\<lambda>i::nat. Reply 10 200 0 (JsonText (7::nat)))
      \<lparr>lastId = 5, page_size = 10\<rparr> initial_world)) =
      [\<lparr>sent_url = ''/b/api/subscriptions/user?'' @ q, sent_init = items_init ''abc'', sent_at = 0\<rparr>]
    \<and> parse_search_params q = [(''lastId'', ''5''), (''size'', ''10'')])"
  using getItems_request [of "[''SESSION'' \<mapsto> ''abc'']" "''abc''" "''/b''"
      "\<lambda>i::nat. Reply 10 200 0 (JsonText (7::nat))" "\<lparr>lastId = 5, page_size = 10\<rparr>" initial_world]
  by (auto simp: string_eval)

end
