(* ===== verification/Interaction.thy ===== *)
theory Interaction
  imports Main
begin

text \<open>
  The interface the page components share with the model of React: a page is
  a deterministic step function from its state and an event (a user
  interaction, a commit that runs effects, a mutation that settles) to the
  next state. \<open>reach step init\<close> is the set of states a page can be in after
  any sequence of events from its initial state; invariants of a page are
  proved once by rule induction over it (\<open>reach_invariant\<close>), and a concrete
  run is a list of events folded over the step function (\<open>run\<close>).
\<close>

inductive reach :: "('s \<Rightarrow> 'e \<Rightarrow> 's) \<Rightarrow> 's \<Rightarrow> 's \<Rightarrow> bool" for step init where
  reach_init [intro]: "reach step init init"
| reach_step [intro]: "reach step init s \<Longrightarrow> reach step init (step s e)"

definition run :: "('s \<Rightarrow> 'e \<Rightarrow> 's) \<Rightarrow> 's \<Rightarrow> 'e list \<Rightarrow> 's" where
  "run step s es = fold (\<lambda>e s. step s e) es s"

inductive_cases reach_stepE: "reach step init s"

lemma run_simps [simp]:
  "run step s [] = s"
  "run step s (e # es) = run step (step s e) es"
  by (simp_all add: run_def)

lemma run_snoc [simp]: "run step s (es @ [e]) = step (run step s es) e"
  by (simp add: run_def)

lemma reach_run_from: "reach step init s \<Longrightarrow> reach step init (run step s es)"
  by (induction es arbitrary: s) auto

lemma reach_run [intro]: "reach step init (run step init es)"
  by (rule reach_run_from [OF reach_init])

text \<open>The reachable states are exactly the states some run of events leads to.\<close>

lemma reach_iff_run: "reach step init s \<longleftrightarrow> (\<exists>es. s = run step init es)"
proof
  assume "reach step init s"
  then show "\<exists>es. s = run step init es"
  proof (induction rule: reach.induct)
    case reach_init
    show ?case by (rule exI [of _ "[]"]) simp
  next
    case (reach_step s e)
    then obtain es where "s = run step init es" by blast
    then show ?case by (intro exI [of _ "es @ [e]"]) simp
  qed
next
  assume "\<exists>es. s = run step init es"
  then obtain es where "s = run step init es" by blast
  then show "reach step init s" by (simp add: reach_run)
qed

text \<open>An invariant that holds initially and is kept by every step holds in every reachable state.\<close>

lemma reach_invariant:
  assumes "reach step init s" and "P init" and "\<And>s e. P s \<Longrightarrow> P (step s e)"
  shows "P s"
  using assms(1)
proof induction
  case reach_init
  show ?case by (rule assms(2))
next
  case (reach_step s e)
  from reach_step.IH show ?case by (rule assms(3))
qed

end
