(* ===== verification/Mypage.thy ===== *)
theory Mypage
  imports Interaction Prelude
begin

text \<open>
  The client component \<open>ClientMypage\<close>
  (\<open>src/src/app/(protected)/mypage/ClientMypage.tsx\<close>) as a state machine.
  Its state joins the component's own \<open>useState\<close> (\<open>hydrated\<close>), the slices
  of the shared stores it reads and writes (the auth store's \<open>user\<close>, the
  theme), the dialogs it opens, and the effects it has issued so far (toasts,
  alarm and logout mutations, navigations). An event is a commit, a change of
  props, a user interaction or the settling of the alarm mutation; the step
  function runs the handler the code attaches to it. The stores, the
  mutation hooks and the router are outside the sources: only the calls the
  component makes on them are recorded.
\<close>

section \<open>Data\<close>

text \<open>\<open>PATH\<close> of \<open>#app/routes\<close>, the two routes the component can reach.\<close>

datatype path = PathMain | PathMypageEdit

text \<open>\<open>userInfo\<close> of \<open>#types/user\<close>, with the fields the page shows.\<close>

record user_info =
  nickName :: string
  email :: string
  alarm :: bool

text \<open>The two toast messages, as UTF-8 bytes.\<close>

definition msg_dark :: string where
  "msg_dark = map char_of [0xEB, 0x8B, 0xA4, 0xED, 0x81, 0xAC, 0x20, 0xEB, 0xAA, 0xA8, 0xEB,
     0x93, 0x9C, 0xEB, 0xA1, 0x9C, 0x20, 0xEC, 0xA0, 0x84, 0xED, 0x99, 0x98, 0xEB, 0x90, 0x98,
     0xEC, 0x97, 0x88, 0xEC, 0x8A, 0xB5, 0xEB, 0x8B, 0x88, 0xEB, 0x8B, 0xA4, 0x2E::nat]"

definition msg_light :: string where
  "msg_light = map char_of [0xEB, 0x9D, 0xBC, 0xEC, 0x9D, 0xB4, 0xED, 0x8A, 0xB8, 0x20, 0xEB,
     0xAA, 0xA8, 0xEB, 0x93, 0x9C, 0xEB, 0xA1, 0x9C, 0x20, 0xEC, 0xA0, 0x84, 0xED, 0x99, 0x98,
     0xEB, 0x90, 0x98, 0xEC, 0x97, 0x88, 0xEC, 0x8A, 0xB5, 0xEB, 0x8B, 0x88, 0xEB, 0x8B, 0xA4,
     0x2E::nat]"

record mypage_state =
  initialData :: user_info
  hydrated :: bool
  user :: "user_info option"
  theme :: string
  toasts :: "string list"
  alarm_pending :: bool
  alarm_calls :: nat
  alarm_settled :: nat
  logout_calls :: nat
  routes :: "path list"
  logout_open :: bool
  withdraw_open :: bool

text \<open>
  Before the first commit: \<open>hydrated\<close> is \<open>false\<close>, the stores hold whatever
  they held (\<open>u\<close>, \<open>th\<close>), nothing has been issued and no dialog is open.
\<close>

definition mypage_init :: "user_info \<Rightarrow> user_info option \<Rightarrow> string \<Rightarrow> mypage_state" where
  "mypage_init d u th =
     \<lparr>initialData = d, hydrated = False, user = u, theme = th, toasts = [], alarm_pending = False,
      alarm_calls = 0, alarm_settled = 0, logout_calls = 0, routes = [], logout_open = False,
      withdraw_open = False\<rparr>"

section \<open>Handlers and effects\<close>

definition handleLogout :: "mypage_state \<Rightarrow> mypage_state" where
  "handleLogout s = s\<lparr>logout_calls := Suc (logout_calls s)\<rparr>"

text \<open>\<open>afterDelete\<close>: the store's \<open>logout\<close> clears the user, then the router goes to the main page.\<close>

definition afterDelete :: "mypage_state \<Rightarrow> mypage_state" where
  "afterDelete s = s\<lparr>user := None, routes := routes s @ [PathMain]\<rparr>"

definition hydrate_effect :: "mypage_state \<Rightarrow> mypage_state" where
  "hydrate_effect s = s\<lparr>hydrated := True\<rparr>"

definition sync_user_effect :: "mypage_state \<Rightarrow> mypage_state" where
  "sync_user_effect s = s\<lparr>user := Some (initialData s)\<rparr>"

definition toggle_alarm :: "mypage_state \<Rightarrow> mypage_state" where
  "toggle_alarm s = s\<lparr>alarm_pending := True, alarm_calls := Suc (alarm_calls s)\<rparr>"

text \<open>\<open>onCheckedChange\<close> of the dark-mode switch.\<close>

definition dark_mode_change :: "bool \<Rightarrow> mypage_state \<Rightarrow> mypage_state" where
  "dark_mode_change checked s =
     s\<lparr>theme := (if checked then ''dark'' else ''light''),
       toasts := toasts s @ [if checked then msg_dark else msg_light]\<rparr>"

section \<open>Events and the step function\<close>

text \<open>
  \<open>Commit\<close> is the first commit, after which both effects run in order;
  \<open>NewProps\<close> a render with new \<open>initialData\<close>, which reruns the second effect
  once mounted. A switch calls its handler with the negation of its
  \<open>checked\<close> value; a disabled switch ignores the click. \<open>AlarmSettled\<close> is the
  end of the alarm mutation; what its hook does on success lives outside the
  sources, and the component itself writes nothing then. Likewise the
  settling of the logout mutation runs only code outside the sources and has
  no event: the only writer of the store's user modelled is this component.
  An \<open>AlertDialogAction\<close> or \<open>AlertDialogCancel\<close>
  closes its dialog and runs the button's \<open>onClick\<close>, if it has one. Nothing
  is rendered before hydration, so no interaction reaches the page then.
\<close>

datatype mypage_event =
    Commit
  | NewProps user_info
  | AlarmSwitch
  | AlarmSettled
  | DarkSwitch
  | EditLink
  | LogoutTrigger
  | WithdrawTrigger
  | DialogCancel
  | LogoutAction
  | WithdrawAction

fun mypage_step :: "mypage_state \<Rightarrow> mypage_event \<Rightarrow> mypage_state" where
  "mypage_step s Commit = (if hydrated s then s else sync_user_effect (hydrate_effect s))"
| "mypage_step s (NewProps d) =
     (if hydrated s then sync_user_effect (s\<lparr>initialData := d\<rparr>) else s\<lparr>initialData := d\<rparr>)"
| "mypage_step s AlarmSwitch = (if hydrated s \<and> \<not> alarm_pending s then toggle_alarm s else s)"
| "mypage_step s AlarmSettled =
     (if alarm_pending s then s\<lparr>alarm_pending := False, alarm_settled := Suc (alarm_settled s)\<rparr> else s)"
| "mypage_step s DarkSwitch = (if hydrated s then dark_mode_change (theme s \<noteq> ''dark'') s else s)"
| "mypage_step s EditLink = (if hydrated s then s\<lparr>routes := routes s @ [PathMypageEdit]\<rparr> else s)"
| "mypage_step s LogoutTrigger = (if hydrated s then s\<lparr>logout_open := True\<rparr> else s)"
| "mypage_step s WithdrawTrigger = (if hydrated s then s\<lparr>withdraw_open := True\<rparr> else s)"
| "mypage_step s DialogCancel = s\<lparr>logout_open := False, withdraw_open := False\<rparr>"
| "mypage_step s LogoutAction = (if logout_open s then handleLogout (s\<lparr>logout_open := False\<rparr>) else s)"
| "mypage_step s WithdrawAction = (if withdraw_open s then s\<lparr>withdraw_open := False\<rparr> else s)"

section \<open>Rendering\<close>

record mypage_view =
  shown_nickName :: "string option"
  shown_email :: "string option"
  alarm_checked :: "bool option"
  alarm_disabled :: bool
  dark_checked :: bool

definition ClientMypage :: "mypage_state \<Rightarrow> mypage_view option" where
  "ClientMypage s =
     (if \<not> hydrated s then None
      else Some \<lparr>shown_nickName = map_option nickName (user s), shown_email = map_option email (user s),
                 alarm_checked = map_option alarm (user s), alarm_disabled = alarm_pending s,
                 dark_checked = (theme s = ''dark'')\<rparr>)"

text \<open>
  The invariant: once hydrated the store holds the latest \<open>initialData\<close>;
  before hydration nothing has been issued and no dialog is open; every alarm
  mutation but a pending one has settled; the main page is never visited.
\<close>

definition mypage_inv :: "mypage_state \<Rightarrow> bool" where
  "mypage_inv s \<longleftrightarrow>
     (hydrated s \<longrightarrow> user s = Some (initialData s))
   \<and> (\<not> hydrated s \<longrightarrow> toasts s = [] \<and> alarm_calls s = 0 \<and> \<not> alarm_pending s \<and> logout_calls s = 0
        \<and> routes s = [] \<and> \<not> logout_open s \<and> \<not> withdraw_open s)
   \<and> alarm_calls s = alarm_settled s + (if alarm_pending s then 1 else 0)
   \<and> PathMain \<notin> set (routes s)"


section \<open>Lemmas: the invariant\<close>

lemmas mypage_handlers = handleLogout_def afterDelete_def hydrate_effect_def sync_user_effect_def
  toggle_alarm_def dark_mode_change_def

lemma mypage_inv_init [simp]: "mypage_inv (mypage_init d u th)"
  by (simp add: mypage_inv_def mypage_init_def)

lemma mypage_inv_step: "mypage_inv s \<Longrightarrow> mypage_inv (mypage_step s e)"
  by (cases e) (auto simp: mypage_inv_def mypage_handlers split: option.splits)

lemma mypage_reach_inv:
  "reach mypage_step (mypage_init d u th) s \<Longrightarrow> mypage_inv s"
  by (erule reach_invariant) (simp_all add: mypage_inv_step)

section \<open>Properties of the page\<close>

text \<open>
  C25. At most one alarm mutation is in flight: in every reachable state the
  calls of \<open>toggleAlarm\<close> exceed the settled ones by at most one, because the
  switch is disabled while the mutation is pending (ClientMypage.tsx line 111).
\<close>

theorem mypage_alarm_single_flight:
  assumes "reach mypage_step (mypage_init d u th) s"
  shows "alarm_calls s \<le> Suc (alarm_settled s)"
  using mypage_reach_inv [OF assms] by (simp add: mypage_inv_def)

theorem mypage_alarm_single_flight_witness:
  "alarm_calls (run mypage_step (mypage_init \<lparr>nickName = ''a'', email = ''e'', alarm = True\<rparr> None ''light'')
      [Commit, AlarmSwitch, AlarmSwitch, AlarmSwitch]) \<le> 1"
  using mypage_alarm_single_flight [of "\<lparr>nickName = ''a'', email = ''e'', alarm = True\<rparr>" None "''light''"
      "run mypage_step (mypage_init \<lparr>nickName = ''a'', email = ''e'', alarm = True\<rparr> None ''light'')
         [Commit, AlarmSwitch, AlarmSwitch, AlarmSwitch]", OF reach_run]
  by (simp add: mypage_init_def mypage_handlers)

text \<open>
  C26. The withdrawal dialog does nothing: in every reachable state, whatever
  the user clicked, the main page has never been visited and, once hydrated,
  the store still holds a user. The confirm button of the dialog has no
  handler, and \<open>afterDelete\<close> is never called.
\<close>

theorem mypage_withdraw_keeps_session:
  assumes "reach mypage_step (mypage_init d u th) s"
  shows "PathMain \<notin> set (routes s) \<and> (hydrated s \<longrightarrow> user s \<noteq> None)"
  using mypage_reach_inv [OF assms] by (simp add: mypage_inv_def)

text \<open>
  C29. Clicking the dark-mode switch of a rendered page turns it to the
  opposite of its current position and shows the toast for the new mode: dark
  when the theme was anything but dark, light otherwise.
\<close>

theorem mypage_dark_toggle:
  assumes "hydrated s"
  shows "map_option dark_checked (ClientMypage (mypage_step s DarkSwitch)) = Some (theme s \<noteq> ''dark'')
     \<and> toasts (mypage_step s DarkSwitch) = toasts s @ [if theme s = ''dark'' then msg_light else msg_dark]"
  using assms by (simp add: ClientMypage_def dark_mode_change_def)


text \<open>
  C27. Logout is requested only through the confirm button of the logout
  dialog: a sequence of events without that action issues no logout
  mutation, from any state.
\<close>

theorem mypage_logout_only_on_confirm:
  "LogoutAction \<notin> set es \<Longrightarrow> logout_calls (run mypage_step s es) = logout_calls s"
proof (induction es arbitrary: s)
  case Nil
  then show ?case by simp
next
  case (Cons e es)
  then have "logout_calls (mypage_step s e) = logout_calls s"
    by (cases e) (simp_all add: mypage_handlers)
  with Cons show ?case by simp
qed

text \<open>
  C30. Progress of logout. From every state, whatever dialogs are open and
  whether or not the page has been committed yet, the four events commit,
  cancel, open the logout dialog and confirm issue exactly one logout
  mutation.
\<close>

theorem mypage_logout_always_possible:
  "logout_calls (run mypage_step s [Commit, DialogCancel, LogoutTrigger, LogoutAction]) = Suc (logout_calls s)"
  by (simp add: mypage_handlers)

theorem mypage_withdraw_keeps_session_witness:
  "PathMain \<notin> set (routes (run mypage_step (mypage_init \<lparr>nickName = ''a'', email = ''e'', alarm = True\<rparr> None ''light'')
      [Commit, WithdrawTrigger, WithdrawAction]))
   \<and> user (run mypage_step (mypage_init \<lparr>nickName = ''a'', email = ''e'', alarm = True\<rparr> None ''light'')
      [Commit, WithdrawTrigger, WithdrawAction]) \<noteq> None"
  using mypage_withdraw_keeps_session [of "\<lparr>nickName = ''a'', email = ''e'', alarm = True\<rparr>" None "''light''"
      "run mypage_step (mypage_init \<lparr>nickName = ''a'', email = ''e'', alarm = True\<rparr> None ''light'')
         [Commit, WithdrawTrigger, WithdrawAction]", OF reach_run]
  by (simp add: mypage_init_def mypage_handlers)

theorem mypage_dark_toggle_witness:
  "map_option dark_checked (ClientMypage (mypage_step (mypage_step (mypage_init \<lparr>nickName = ''a'', email = ''e'', alarm = True\<rparr> None ''light'') Commit) DarkSwitch)) = Some True
   \<and> toasts (mypage_step (mypage_step (mypage_init \<lparr>nickName = ''a'', email = ''e'', alarm = True\<rparr> None ''light'') Commit) DarkSwitch) = [msg_dark]"
  using mypage_dark_toggle [of "mypage_step (mypage_init \<lparr>nickName = ''a'', email = ''e'', alarm = True\<rparr> None ''light'') Commit"]
  by (simp add: mypage_init_def mypage_handlers)


theorem mypage_logout_only_on_confirm_witness:
  "logout_calls (run mypage_step (mypage_init \<lparr>nickName = ''a'', email = ''e'', alarm = True\<rparr> None ''light'')
      [Commit, LogoutTrigger, DialogCancel, WithdrawTrigger, WithdrawAction]) = 0"
  using mypage_logout_only_on_confirm [of "[Commit, LogoutTrigger, DialogCancel, WithdrawTrigger, WithdrawAction]"
      "mypage_init \<lparr>nickName = ''a'', email = ''e'', alarm = True\<rparr> None ''light''"]
  by (simp add: mypage_init_def)

end
