(* ===== verification/Register.thy ===== *)
theory Register
  imports Interaction Prelude
begin

text \<open>
  The registration page \<open>Register\<close> (\<open>src/src/app/register/page.tsx\<close>) as a
  state machine. Its state is the pair \<open>[state, isPending]\<close> of
  \<open>useActionState(registerAction, null)\<close> together with the actions
  dispatched so far; \<open>registerAction\<close> itself (module \<open>./registerAction\<close>,
  outside the sources) is the environment: it receives the previous state
  and the submitted form data and eventually returns a new state. The view
  is a function of the state: the success screen when the state carries
  \<open>data\<close>, otherwise the form, prefilled from the \<open>formData\<close> the action
  returned and annotated with its \<open>errors\<close>.
\<close>

section \<open>The action state\<close>

text \<open>The per-field error lists of the action's result (\<open>errors?.nickname\<close> and so on).\<close>

record field_errors =
  nickname_errs :: "string list option"
  email_errs :: "string list option"
  password_errs :: "string list option"
  passwordConfirm_errs :: "string list option"

text \<open>
  The result of \<open>registerAction\<close>: \<open>data\<close> (its \<open>nickname\<close> when present), the
  submitted \<open>formData\<close> as name/value entries, and \<open>errors\<close>.
\<close>

record action_state =
  data :: "string option"
  formData :: "(string \<times> string) list option"
  errors :: "field_errors option"

text \<open>\<open>formData?.get(name)\<close>: the first entry with that name, or nothing.\<close>

definition form_get :: "(string \<times> string) list option \<Rightarrow> string \<Rightarrow> string option" where
  "form_get fd name = (case fd of None \<Rightarrow> None | Some ps \<Rightarrow> map_of ps name)"

section \<open>The view\<close>

record form_view =
  nickname_default :: "string option"
  email_default :: "string option"
  password_default :: "string option"
  password_confirm_default :: "string option"
  nickname_errors :: "string list option"
  email_errors :: "string list option"
  password_errors :: "string list option"
  password_confirm_errors :: "string list option"
  submit_disabled :: bool

datatype register_view = RegisterSuccess string | RegisterForm form_view

definition Register :: "action_state option \<Rightarrow> bool \<Rightarrow> register_view" where
  "Register state isPending =
     (case Option.bind state data of
        Some nickname \<Rightarrow> RegisterSuccess nickname
      | None \<Rightarrow>
          (let fd = Option.bind state formData; errs = Option.bind state errors in
           RegisterForm
             \<lparr>nickname_default = form_get fd ''nickname'', email_default = form_get fd ''email'',
              password_default = form_get fd ''password'',
              password_confirm_default = form_get fd ''password-confirm'',
              nickname_errors = Option.bind errs nickname_errs, email_errors = Option.bind errs email_errs,
              password_errors = Option.bind errs password_errs,
              password_confirm_errors = Option.bind errs passwordConfirm_errs,
              submit_disabled = isPending\<rparr>))"

section \<open>Events and the step function\<close>

record register_page =
  state :: "action_state option"
  isPending :: bool
  submissions :: "(action_state option \<times> (string \<times> string) list) list"
  returned :: nat

definition register_init :: register_page where
  "register_init = \<lparr>state = None, isPending = False, submissions = [], returned = 0\<rparr>"

text \<open>
  \<open>Submit\<close> submits the form with the entries of its four inputs; the browser
  does not submit a form whose submit button is disabled, and there is no form
  once the success screen is shown. \<open>ActionReturns\<close> is the pending action
  resolving. \<open>DuplicateCheck\<close> is a click on the button \<open>type="button"\<close> next
  to the nickname input, which has no handler.
\<close>

datatype register_event =
    Submit "(string \<times> string) list"
  | ActionReturns action_state
  | DuplicateCheck

definition form_shown :: "register_page \<Rightarrow> bool" where
  "form_shown s \<longleftrightarrow> Option.bind (state s) data = None"

fun register_step :: "register_page \<Rightarrow> register_event \<Rightarrow> register_page" where
  "register_step s (Submit fd) =
     (if form_shown s \<and> \<not> isPending s
      then s\<lparr>isPending := True, submissions := submissions s @ [(state s, fd)]\<rparr> else s)"
| "register_step s (ActionReturns st) =
     (if isPending s then s\<lparr>state := Some st, isPending := False, returned := Suc (returned s)\<rparr> else s)"
| "register_step s DuplicateCheck = s"

text \<open>
  The invariant: every dispatched action but a pending one has returned, and
  the success screen is never shown while an action is pending.
\<close>

definition register_inv :: "register_page \<Rightarrow> bool" where
  "register_inv s \<longleftrightarrow>
     length (submissions s) = returned s + (if isPending s then 1 else 0)
   \<and> (\<not> form_shown s \<longrightarrow> \<not> isPending s)"

section \<open>Lemmas: the invariant\<close>

lemma register_inv_init [simp]: "register_inv register_init"
  by (simp add: register_inv_def register_init_def form_shown_def)

lemma register_inv_step: "register_inv s \<Longrightarrow> register_inv (register_step s e)"
  by (cases e) (auto simp: register_inv_def form_shown_def)

lemma register_reach_inv: "reach register_step register_init s \<Longrightarrow> register_inv s"
  by (erule reach_invariant) (simp_all add: register_inv_step)

lemma register_success_stuck: "\<not> form_shown s \<Longrightarrow> \<not> isPending s \<Longrightarrow> register_step s e = s"
  by (cases e) simp_all

section \<open>Properties of the page\<close>

text \<open>
  C31. At most one registration is in flight: in every reachable state the
  dispatched actions are the returned ones plus the pending one, if any,
  because the submit button is disabled while \<open>isPending\<close> (page.tsx line 121).
\<close>

theorem register_single_flight:
  assumes "reach register_step register_init s"
  shows "length (submissions s) = returned s + (if isPending s then 1 else 0)"
  using register_reach_inv [OF assms] by (simp add: register_inv_def)

text \<open>
  C32. The success screen is final: from a reachable state showing
  \<open>RegisterSuccess\<close>, no sequence of events changes the page any more.
\<close>

theorem register_success_final:
  assumes "reach register_step register_init s" and "Register (state s) (isPending s) = RegisterSuccess n"
  shows "run register_step s es = s"
proof -
  have shown: "\<not> form_shown s"
    using assms(2) by (auto simp: Register_def form_shown_def Let_def split: option.splits)
  with register_reach_inv [OF assms(1)] have "\<not> isPending s" by (simp add: register_inv_def)
  with shown show ?thesis
    by (induction es) (simp_all add: register_success_stuck)
qed

text \<open>
  C33. When an action returns a state without \<open>data\<close>, the form is shown
  again with every input prefilled from the returned \<open>formData\<close>, the
  password and its confirmation included, the returned errors under each
  field, and the submit button enabled.
\<close>

theorem register_prefill:
  assumes "isPending s" and "data st = None"
  shows "Register (state (register_step s (ActionReturns st))) (isPending (register_step s (ActionReturns st))) =
     RegisterForm
       \<lparr>nickname_default = form_get (formData st) ''nickname'', email_default = form_get (formData st) ''email'',
        password_default = form_get (formData st) ''password'',
        password_confirm_default = form_get (formData st) ''password-confirm'',
        nickname_errors = Option.bind (errors st) nickname_errs, email_errors = Option.bind (errors st) email_errs,
        password_errors = Option.bind (errors st) password_errs,
        password_confirm_errors = Option.bind (errors st) passwordConfirm_errs,
        submit_disabled = False\<rparr>"
  using assms by (simp add: Register_def Let_def)

text \<open>
  The nickname duplicate-check button has no effect: removing its clicks
  from any sequence of events leaves the resulting page unchanged.
\<close>

lemma register_duplicate_check_noop:
  "run register_step s es = run register_step s (filter (\<lambda>e. e \<noteq> DuplicateCheck) es)"
  by (induction es arbitrary: s) auto

theorem register_single_flight_witness:
  "length (submissions (run register_step register_init
      [Submit [(''nickname'', ''kim'')], Submit [(''nickname'', ''lee'')],
       ActionReturns \<lparr>data = None, formData = None, errors = None\<rparr>, Submit [(''nickname'', ''park'')]])) = 2"
  using register_single_flight [of "run register_step register_init
      [Submit [(''nickname'', ''kim'')], Submit [(''nickname'', ''lee'')],
       ActionReturns \<lparr>data = None, formData = None, errors = None\<rparr>, Submit [(''nickname'', ''park'')]]", OF reach_run]
  by (simp add: register_init_def form_shown_def)

theorem register_success_final_witness:
  "run register_step (run register_step register_init
      [Submit [(''nickname'', ''kim'')], ActionReturns \<lparr>data = Some ''kim'', formData = None, errors = None\<rparr>])
     [Submit [(''nickname'', ''lee'')], DuplicateCheck]
   = run register_step register_init
      [Submit [(''nickname'', ''kim'')], ActionReturns \<lparr>data = Some ''kim'', formData = None, errors = None\<rparr>]"
  using register_success_final [of "run register_step register_init
      [Submit [(''nickname'', ''kim'')], ActionReturns \<lparr>data = Some ''kim'', formData = None, errors = None\<rparr>]"
      "''kim''" "[Submit [(''nickname'', ''lee'')], DuplicateCheck]", OF reach_run]
  by (simp add: register_init_def form_shown_def Register_def)

theorem register_prefill_witness:
  "Register (state (register_step (register_step register_init (Submit [(''password'', ''pw1'')]))
        (ActionReturns \<lparr>data = None, formData = Some [(''password'', ''pw1'')], errors = None\<rparr>)))
     (isPending (register_step (register_step register_init (Submit [(''password'', ''pw1'')]))
        (ActionReturns \<lparr>data = None, formData = Some [(''password'', ''pw1'')], errors = None\<rparr>)))
   = RegisterForm
       \<lparr>nickname_default = None, email_default = None, password_default = Some ''pw1'',
        password_confirm_default = None, nickname_errors = None, email_errors = None,
        password_errors = None, password_confirm_errors = None, submit_disabled = False\<rparr>"
  using register_prefill [of "register_step register_init (Submit [(''password'', ''pw1'')])"
      "\<lparr>data = None, formData = Some [(''password'', ''pw1'')], errors = None\<rparr>"]
  by (simp add: register_init_def form_shown_def form_get_def)

end
