(* ===== verification/Spec2Isabelle.thy ===== *)
theory Spec2Isabelle
  imports FetcherSpec SubscriptionAPI Mypage Register
begin

text \<open>
  \<^bold>\<open>A verification development for the front-end of guttokJandi.\<close>

  \<^bold>\<open>The program.\<close> The repository excerpt has four source files. The request
  client \<open>Fetcher\<close> (\<open>src/src/apis/fetcher.ts\<close>) wraps the platform \<open>fetch\<close>
  with a base URL, a JSON content type, an abort timeout and a retry loop.
  The server actions \<open>searchService\<close> and \<open>getItems\<close>
  (\<open>src/src/apis/subscriptionAPI.ts\<close>) call \<open>fetch\<close> directly: they build
  query strings with \<open>URLSearchParams\<close>, read the \<open>SESSION\<close> cookie and
  translate failures into Korean error messages. Two client pages drive the
  rest of the application: \<open>ClientMypage\<close>
  (\<open>src/src/app/(protected)/mypage/ClientMypage.tsx\<close>) shows the profile and
  the settings switches and dialogs, and \<open>Register\<close>
  (\<open>src/src/app/register/page.tsx\<close>) drives \<open>registerAction\<close> through
  \<open>useActionState\<close>. The components do not call one another inside the
  excerpt; they meet in the platform (\<open>fetch\<close>, timers, cookies) and in the
  HTTP contract of the backend.

  \<^bold>\<open>The theories.\<close>
  \<^item> \<open>Prelude\<close>: JavaScript objects as ordered property lists and the spread
    operator, with its refinement to maps (\<open>map_of_obj_spread\<close>); numbers
    printed in template literals and read back; ASCII case folding.
  \<^item> \<open>Runtime\<close>: the platform, modelled from the Fetch and HTML timer
    standards. A record \<open>world\<close> holds the clock, the pending timers, the log
    of sent requests and the console; every operation passes it explicitly.
    A response keeps its request's abort signal, so a body read is aborted
    while that signal's timer is pending.
    The network is an oracle: the \<open>n\<close>-th request sent meets the \<open>n\<close>-th
    scripted \<open>attempt\<close> (failure or reply, with latencies), so every
    interleaving of network behaviour is a choice of oracle.
  \<^item> \<open>Json\<close>: \<open>JSON.stringify\<close> on the values a request body holds.
  \<^item> \<open>Url\<close>: \<open>URLSearchParams\<close> serialisation and parsing, with the round trip
    \<open>parse_search_params_string\<close>.
  \<^item> \<open>Fetcher\<close>: \<open>fetcher.ts\<close>, definitions only. \<open>fetch_options\<close> extends
    \<open>request_init\<close> as \<open>FetchOptions\<close> extends \<open>RequestInit\<close>;
    \<open>new_Fetcher\<close> is the constructor; \<open>request_try\<close> is the \<open>try\<close> block
    (lines 33--50) and \<open>request\<close> the whole private method with its
    \<open>catch\<close> and recursive retry (lines 19--66); \<open>get\<close>, \<open>post\<close>, \<open>put\<close>,
    \<open>delete\<close> are the verbs.
  \<^item> \<open>FetcherSpec\<close>: the contract of the client and its proofs. The contract
    is \<open>retry_spec\<close>: classify each attempt (\<open>classify\<close>) and take the
    first non-failure within the budget, or the wrapped last failure; a
    declarative reference (\<open>settle_index\<close>, \<open>verdict_value\<close>) states the same
    as a search over the attempts, and \<open>retry_time\<close> gives the time taken.
  \<^item> \<open>SubscriptionAPI\<close>: \<open>searchService\<close> and \<open>getItems\<close>, each one
    definition with every branch of the source; \<open>BASE_URL\<close> of
    \<open>#constants/url\<close> is a parameter and the cookies are a map.
  \<^item> \<open>Interaction\<close>: the interface of the pages, a step function over a state
    and an event type, with reachability \<open>reach\<close> and runs \<open>run\<close>.
  \<^item> \<open>Mypage\<close>: \<open>ClientMypage\<close> as \<open>mypage_step\<close> over \<open>mypage_state\<close>
    (its \<open>useState\<close>, the store slices it uses, its dialogs, the effects it
    issued), with one definition per handler or effect (\<open>handleLogout\<close>,
    \<open>afterDelete\<close>, \<open>hydrate_effect\<close>, \<open>sync_user_effect\<close>, \<open>toggle_alarm\<close>,
    \<open>dark_mode_change\<close>) and the render function \<open>ClientMypage\<close>.
  \<^item> \<open>Register\<close>: \<open>useActionState\<close> as \<open>register_step\<close> over \<open>register_page\<close>
    and the render function \<open>Register\<close>.
  \<^item> This theory: properties that relate the components.

  \<^bold>\<open>What is proved.\<close> For the request client: termination of \<open>request\<close>
  on every input (\<open>request_terminates\<close>, by domain induction); the
  refinement of the retry contract (\<open>request_refines_retry_spec\<close>) and its
  equivalence with the declarative first-success search
  (\<open>request_settles_first\<close>); that every request carries a well-formed header
  object with a content type; and, following from the refinement, the success,
  recovery, give-up, timeout and attempt-bound theorems; the time a call
  takes (\<open>request_elapsed_time\<close>) and a latency bound for calls whose
  attempts all fail; that no timer is left pending; where each request goes and what it carries; and the
  specification's scenarios A, B and C. Several theorems pin down behaviour
  that departs from the specification (decode failures are neither retried
  nor wrapped, the body read is not bounded by the timeout, the final message
  prints a constant, header merging is case-sensitive and drops \<open>Headers\<close>
  instances, a failed \<open>POST\<close> is sent again). For the server actions: the outcome of each branch, the
  parameter round trip of the query string (no injection through the search
  term), no request without a session, and the logging of the session token.
  For the pages: invariants over all reachable states by rule induction
  (single flight of the alarm mutation and of the registration action, the
  withdrawal dialog never logs out, the success screen is final), progress
  (logout can be reached from every state), the view in every reachable
  state, and the effect of each interaction.

  \<^bold>\<open>Termination and bounds.\<close> No fuel is used. \<open>request\<close> is a \<open>function\<close>
  whose recursion decreases the retry budget (\<open>measure\<close> on
  \<open>nat (resolve_retries options)\<close>), and the claim \<open>request_terminates\<close>
  proves its domain predicate for every input; a budget of \<open>Infinity\<close>, possible in
  JavaScript, is outside the model, which takes the budget as an integer.
  Times are natural numbers of milliseconds; integers are unbounded, as the
  values involved stay far below \<open>2^53\<close>.

  \<^bold>\<open>Not modelled.\<close> The commented-out mutations of
  \<open>subscriptionAPI.ts\<close> (dead code); the modules outside the sources
  (\<open>#constants\<close>, \<open>#types\<close>, the auth store, the alarm and logout mutation
  hooks, \<open>registerAction\<close>, the theme provider, the router), whose effect on
  the pages is recorded only as the calls the pages make (writes to the auth
  store by the success handlers of those hooks are not modelled); styling and static
  markup; concurrency between independent calls, which the code does not
  coordinate.
\<close>

section \<open>Properties across components\<close>

text \<open>
  C35. The request client supports the session-cookie callers: a \<open>get\<close> given
  the header record \<open>getItems\<close> builds sends, on every attempt, the
  \<open>SESSION\<close> cookie unchanged and a single JSON content type, since the
  caller's \<open>Content-Type\<close> is spelled like the default and overrides it.
\<close>

theorem fetcher_keeps_session_cookie:
  assumes "world_ok w" and "headers options = headers (items_init s)" and "body options = None"
  shows "\<forall>r \<in> set (drop (length (sent w)) (sent (snd (get net f url options w)))).
     header_get (header_list (headers (sent_init r))) ''Cookie'' = Some (''SESSION='' @ s)
   \<and> header_get (header_list (headers (sent_init r))) ''Content-Type'' = Some ''application/json''"
proof -
  let ?o = "options\<lparr>http_method := Some ''GET''\<rparr>"
  have nf: "\<not> body_forbidden (rest_options ?o)"
    using assms(3) by (simp add: body_forbidden_def rest_options_def request_init.truncate_def)
  have hd: "header_get (header_list (headers (fetch_init (rest_options ?o) c))) ''Cookie'' = Some (''SESSION='' @ s)
     \<and> header_get (header_list (headers (fetch_init (rest_options ?o) c))) ''Content-Type'' = Some ''application/json''"
    for c
    using assms(2)
    by (simp add: fetch_init_def rest_options_def request_init.truncate_def items_init_def
        default_headers_def header_get_def string_eval)
  show ?thesis
    using request_run_inst(6) [OF assms(1) nf, of net f url] hd by (auto simp: get_def)
qed

theorem fetcher_keeps_session_cookie_witness:
  "list_all (\<lambda>r. header_get (header_list (headers (sent_init r))) ''Cookie'' = Some ''SESSION=abc''
       \<and> header_get (header_list (headers (sent_init r))) ''Content-Type'' = Some ''application/json'')
     (sent (snd (get (\<lambda>i. Reply 10 200 5 (JsonText (1::nat))) (new_Fetcher None) ''/subscriptions/user''
        (empty_options\<lparr>headers := headers (items_init ''abc'')\<rparr>) initial_world)))"
  using fetcher_keeps_session_cookie [of initial_world "empty_options\<lparr>headers := headers (items_init ''abc'')\<rparr>"
      "''abc''" "\<lambda>i. Reply 10 200 5 (JsonText (1::nat))" "new_Fetcher None" "''/subscriptions/user''"]
  by (simp add: options_eval list_all_iff items_init_def)

text \<open>
  C36. The server actions are not bounded in time, unlike the request client:
  for a backend that answers after a minute, \<open>getItems\<close> resolves with the
  body, while \<open>get\<close> of the client aborts both of its attempts at the default
  timeout and rejects with the wrapped \<open>AbortError\<close>.
\<close>

theorem server_actions_unbounded:
  "fst (getItems ''/b'' [''SESSION'' \<mapsto> ''abc''] (\<lambda>i. Reply 60000 200 0 (JsonText (1::nat)))
      \<lparr>lastId = 0, page_size = 10\<rparr> initial_world) = Inr 1
   \<and> fst (get (\<lambda>i. Reply 60000 200 0 (JsonText (1::nat))) (new_Fetcher None) ''/subscriptions/user''
      empty_options initial_world) = Inl (final_error abort_error)"
proof -
  have ok: "world_ok initial_world"
    and nf: "\<not> body_forbidden (rest_options (empty_options\<lparr>http_method := Some ''GET''\<rparr>))"
    by (simp_all add: options_eval)
  have "fst (get (\<lambda>i. Reply 60000 200 0 (JsonText (1::nat))) (new_Fetcher None) ''/subscriptions/user''
      empty_options initial_world) = Inl (final_error abort_error)"
    using request_run_inst(1) [OF ok nf, of "\<lambda>i. Reply 60000 200 0 (JsonText (1::nat))"
        "new_Fetcher None" "''/subscriptions/user''"]
    by (simp add: get_def options_eval)
  moreover have "fst (getItems ''/b'' [''SESSION'' \<mapsto> ''abc''] (\<lambda>i. Reply 60000 200 0 (JsonText (1::nat)))
      \<lparr>lastId = 0, page_size = 10\<rparr> initial_world) = Inr 1"
    by (simp add: getItems_unfold [where cookies = "[''SESSION'' \<mapsto> ''abc'']" and s = "''abc''"]
        status_ok_def)
  ultimately show ?thesis by simp
qed

end
